theory Spec2Isabelle
  imports Complex_Main
begin

section \<open>Python values used by the student management system\<close>

text \<open>
  Strings are lists of characters. The model covers ASCII text: a character with a code
  of 128 or more is neither a space, a digit nor a letter here and has no case.
  An exception is a value of type \<open>error\<close>, carrying the message of the source.
\<close>

datatype error = ValueError string | KeyError string | AttributeError | TypeError | OverflowError

definition res_bind :: "error + 'a \<Rightarrow> ('a \<Rightarrow> error + 'b) \<Rightarrow> error + 'b" where
  "res_bind r f = (case r of Inl e \<Rightarrow> Inl e | Inr x \<Rightarrow> f x)"

definition ord :: "char \<Rightarrow> nat" where
  "ord c = of_char c"

definition isspace :: "char \<Rightarrow> bool" where
  "isspace c = ((9 \<le> ord c \<and> ord c \<le> 13) \<or> (28 \<le> ord c \<and> ord c \<le> 32))"

definition isdigit :: "char \<Rightarrow> bool" where
  "isdigit c = (48 \<le> ord c \<and> ord c \<le> 57)"

definition isupper :: "char \<Rightarrow> bool" where
  "isupper c = (65 \<le> ord c \<and> ord c \<le> 90)"

definition islower :: "char \<Rightarrow> bool" where
  "islower c = (97 \<le> ord c \<and> ord c \<le> 122)"

definition isalpha :: "char \<Rightarrow> bool" where
  "isalpha c = (isupper c \<or> islower c)"

definition toupper :: "char \<Rightarrow> char" where
  "toupper c = (if islower c then char_of (ord c - 32) else c)"

definition tolower :: "char \<Rightarrow> char" where
  "tolower c = (if isupper c then char_of (ord c + 32) else c)"

text \<open>\<open>str.strip()\<close>, \<open>str.upper()\<close>, \<open>str.lower()\<close>.\<close>

definition str_strip :: "string \<Rightarrow> string" where
  "str_strip s = rev (dropWhile isspace (rev (dropWhile isspace s)))"

definition str_upper :: "string \<Rightarrow> string" where
  "str_upper s = map toupper s"

definition str_lower :: "string \<Rightarrow> string" where
  "str_lower s = map tolower s"

text \<open>
  \<open>str.title()\<close>: a cased character that follows an uncased one (or starts the string)
  is put in upper case, a cased character that follows a cased one in lower case. The
  flag is Python's \<open>previous_is_cased\<close>.
\<close>

fun title_from :: "bool \<Rightarrow> string \<Rightarrow> string" where
  "title_from prev [] = []"
| "title_from prev (c # cs) =
     (if islower c then (if prev then c else toupper c) # title_from True cs
      else if isupper c then (if prev then tolower c else c) # title_from True cs
      else c # title_from False cs)"

definition str_title :: "string \<Rightarrow> string" where
  "str_title s = title_from False s"

text \<open>\<open>needle in haystack\<close> for strings, and \<open>str.replace('_', ' ')\<close>.\<close>

fun is_prefix :: "string \<Rightarrow> string \<Rightarrow> bool" where
  "is_prefix [] ys = True"
| "is_prefix (x # xs) [] = False"
| "is_prefix (x # xs) (y # ys) = (x = y \<and> is_prefix xs ys)"

fun str_contains :: "string \<Rightarrow> string \<Rightarrow> bool" where
  "str_contains needle [] = (needle = [])"
| "str_contains needle (y # ys) = (is_prefix needle (y # ys) \<or> str_contains needle ys)"

definition replace_underscores :: "string \<Rightarrow> string" where
  "replace_underscores s = map (\<lambda>c. if c = CHR ''_'' then CHR '' '' else c) s"

subsection \<open>Floats\<close>

text \<open>
  A Python float is a finite number, an infinity or NaN. The finite floats are modelled
  by the real numbers, so sums and quotients of finite floats are exact; the infinities
  and NaN behave as in Python. An integer is the finite float of its value.
\<close>

datatype pyfloat = Finite real | PosInf | NegInf | NaN

text \<open>
  \<open>a < b\<close> and \<open>a == b\<close>; every comparison with NaN is false. \<open>a > b\<close> is \<open>b < a\<close>.
\<close>

fun fl_less :: "pyfloat \<Rightarrow> pyfloat \<Rightarrow> bool" where
  "fl_less (Finite a) (Finite b) = (a < b)"
| "fl_less (Finite a) PosInf = True"
| "fl_less NegInf (Finite b) = True"
| "fl_less NegInf PosInf = True"
| "fl_less _ _ = False"

fun fl_eq :: "pyfloat \<Rightarrow> pyfloat \<Rightarrow> bool" where
  "fl_eq (Finite a) (Finite b) = (a = b)"
| "fl_eq PosInf PosInf = True"
| "fl_eq NegInf NegInf = True"
| "fl_eq _ _ = False"

text \<open>\<open>a + b\<close>, and \<open>sum(xs)\<close>, which adds the elements to 0 from left to right.\<close>

fun fl_add :: "pyfloat \<Rightarrow> pyfloat \<Rightarrow> pyfloat" where
  "fl_add (Finite a) (Finite b) = Finite (a + b)"
| "fl_add NaN _ = NaN"
| "fl_add _ NaN = NaN"
| "fl_add PosInf NegInf = NaN"
| "fl_add NegInf PosInf = NaN"
| "fl_add PosInf _ = PosInf"
| "fl_add _ PosInf = PosInf"
| "fl_add NegInf _ = NegInf"
| "fl_add _ NegInf = NegInf"

definition fl_sum :: "pyfloat list \<Rightarrow> pyfloat" where
  "fl_sum xs = foldl fl_add (Finite 0) xs"

text \<open>
  \<open>a / n\<close> for a positive integer \<open>n\<close>. Both divisions of the source are guarded by
  \<open>n > 0\<close>, so the \<open>ZeroDivisionError\<close> of \<open>n = 0\<close> is never reached.
\<close>

fun fl_div :: "pyfloat \<Rightarrow> nat \<Rightarrow> pyfloat" where
  "fl_div (Finite a) n = Finite (a / real n)"
| "fl_div PosInf n = PosInf"
| "fl_div NegInf n = NegInf"
| "fl_div NaN n = NaN"

subsection \<open>Dictionaries with insertion order\<close>

text \<open>
  A Python \<open>dict\<close> keeps its keys in insertion order: assigning to an existing key
  replaces the value in place, assigning to a new key appends the entry.
\<close>

fun dict_set :: "'k \<Rightarrow> 'v \<Rightarrow> ('k \<times> 'v) list \<Rightarrow> ('k \<times> 'v) list" where
  "dict_set k v [] = [(k, v)]"
| "dict_set k v (p # ps) = (if fst p = k then (k, v) # ps else p # dict_set k v ps)"

definition dict_del :: "'k \<Rightarrow> ('k \<times> 'v) list \<Rightarrow> ('k \<times> 'v) list" where
  "dict_del k d = filter (\<lambda>p. fst p \<noteq> k) d"

definition dict_keys :: "('k \<times> 'v) list \<Rightarrow> 'k list" where
  "dict_keys d = map fst d"

definition dict_values :: "('k \<times> 'v) list \<Rightarrow> 'v list" where
  "dict_values d = map snd d"

definition dict_get :: "('k \<times> 'v) list \<Rightarrow> 'k \<Rightarrow> 'v \<Rightarrow> 'v" where
  "dict_get d k dflt = (case map_of d k of None \<Rightarrow> dflt | Some v \<Rightarrow> v)"

subsection \<open>Dates and the clock\<close>

text \<open>
  \<open>datetime.now()\<close> is an input of the model. A date is year, month, day.
\<close>

type_synonym date = "nat \<times> nat \<times> nat"

record datetime =
  dt_year :: nat
  dt_month :: nat
  dt_day :: nat
  dt_hour :: nat
  dt_minute :: nat
  dt_second :: nat

definition digit_char :: "nat \<Rightarrow> char" where
  "digit_char n = char_of (48 + n mod 10)"

definition pad2 :: "nat \<Rightarrow> string" where
  "pad2 n = [digit_char (n div 10), digit_char n]"

definition pad4 :: "nat \<Rightarrow> string" where
  "pad4 n = [digit_char (n div 1000), digit_char (n div 100), digit_char (n div 10), digit_char n]"

text \<open>\<open>strftime("%Y-%m-%d")\<close> and \<open>strftime("%Y%m%d_%H%M%S")\<close>.\<close>

definition strftime_date :: "datetime \<Rightarrow> string" where
  "strftime_date t = pad4 (dt_year t) @ ''-'' @ pad2 (dt_month t) @ ''-'' @ pad2 (dt_day t)"

definition strftime_stamp :: "datetime \<Rightarrow> string" where
  "strftime_stamp t =
     pad4 (dt_year t) @ pad2 (dt_month t) @ pad2 (dt_day t) @ ''_'' @
     pad2 (dt_hour t) @ pad2 (dt_minute t) @ pad2 (dt_second t)"

definition digit_val :: "char \<Rightarrow> nat" where
  "digit_val c = ord c - 48"

definition is_leap :: "nat \<Rightarrow> bool" where
  "is_leap y = (y mod 4 = 0 \<and> (y mod 100 \<noteq> 0 \<or> y mod 400 = 0))"

definition days_in_month :: "nat \<Rightarrow> nat \<Rightarrow> nat" where
  "days_in_month y m =
     (if m = 2 then (if is_leap y then 29 else 28)
      else if m = 4 \<or> m = 6 \<or> m = 9 \<or> m = 11 then 30 else 31)"

text \<open>
  \<open>datetime.strptime(s, "%Y-%m-%d")\<close>. The format is matched as the regular expression
  \<open>\d\d\d\d-(1[0-2]|0[1-9]|[1-9])-(3[01]|[12]\d|0[1-9]|[1-9]| [1-9])\<close>, the whole string
  has to be consumed, the year has to be at least 1 and the day has to exist in the
  month. \<open>None\<close> stands for the \<open>ValueError\<close> of the library.
\<close>

definition nonzero_digit :: "char \<Rightarrow> bool" where
  "nonzero_digit c = (49 \<le> ord c \<and> ord c \<le> 57)"

fun month_token :: "string \<Rightarrow> nat option" where
  "month_token [c] = (if nonzero_digit c then Some (digit_val c) else None)"
| "month_token [a, b] =
     (if a = CHR ''1'' \<and> (b = CHR ''0'' \<or> b = CHR ''1'' \<or> b = CHR ''2'') then Some (10 + digit_val b)
      else if a = CHR ''0'' \<and> nonzero_digit b then Some (digit_val b)
      else None)"
| "month_token _ = None"

fun day_token :: "string \<Rightarrow> nat option" where
  "day_token [c] = (if nonzero_digit c then Some (digit_val c) else None)"
| "day_token [a, b] =
     (if a = CHR ''3'' \<and> (b = CHR ''0'' \<or> b = CHR ''1'') then Some (30 + digit_val b)
      else if (a = CHR ''1'' \<or> a = CHR ''2'') \<and> isdigit b then Some (10 * digit_val a + digit_val b)
      else if (a = CHR ''0'' \<or> a = CHR '' '') \<and> nonzero_digit b then Some (digit_val b)
      else None)"
| "day_token _ = None"

fun strptime :: "string \<Rightarrow> date option" where
  "strptime (a # b # c # d # h # rest) =
     (if isdigit a \<and> isdigit b \<and> isdigit c \<and> isdigit d \<and> h = CHR ''-'' then
        (let y = 1000 * digit_val a + 100 * digit_val b + 10 * digit_val c + digit_val d in
         case month_token (takeWhile (\<lambda>x. x \<noteq> CHR ''-'') rest) of
           None \<Rightarrow> None
         | Some m \<Rightarrow>
            (case dropWhile (\<lambda>x. x \<noteq> CHR ''-'') rest of
               [] \<Rightarrow> None
             | _ # dtok \<Rightarrow>
                (case day_token dtok of
                   None \<Rightarrow> None
                 | Some dd \<Rightarrow>
                     if 1 \<le> y \<and> dd \<le> days_in_month y m then Some (y, m, dd) else None)))
      else None)"
| "strptime _ = None"

section \<open>The student (student.py)\<close>

record student =
  student_id :: string
  first_name :: string
  last_name :: string
  email :: string
  phone :: string
  date_of_birth :: string
  address :: string
  major :: string
  gpa :: pyfloat
  enrollment_date :: string
  courses :: "string list"
  grades :: "(string \<times> pyfloat) list"

subsection \<open>Validators\<close>

definition validate_student_id :: "string \<Rightarrow> error + string" where
  "validate_student_id sid =
     (if sid = [] then Inl (ValueError ''Student ID must be a non-empty string'')
      else if length sid < 3 then Inl (ValueError ''Student ID must be at least 3 characters long'')
      else Inr (str_upper (str_strip sid)))"

definition validate_name :: "string \<Rightarrow> string \<Rightarrow> error + string" where
  "validate_name name field_name =
     (if name = [] then Inl (ValueError (field_name @ '' must be a non-empty string''))
      else if str_strip name = [] then
        Inl (ValueError (field_name @ '' cannot be empty or just whitespace''))
      else Inr (str_title (str_strip name)))"

text \<open>
  \<open>re.match\<close> with the pattern \<open>^[a-zA-Z0-9._%+-]+@[a-zA-Z0-9.-]+\.[a-zA-Z]{2,}$\<close>.
  Neither character class contains \<open>@\<close>, so the local part is the longest prefix of
  local characters and is followed by the only \<open>@\<close>. The top-level domain is made of
  letters and preceded by a dot, so it is the longest suffix of letters; what stands
  between \<open>@\<close> and that dot is a non-empty run of domain characters. \<open>$\<close> also matches
  in front of one final newline.
\<close>

definition is_local_char :: "char \<Rightarrow> bool" where
  "is_local_char c = (isalpha c \<or> isdigit c \<or> c \<in> set ''._%+-'')"

definition is_domain_char :: "char \<Rightarrow> bool" where
  "is_domain_char c = (isalpha c \<or> isdigit c \<or> c \<in> set ''.-'')"

definition domain_match :: "string \<Rightarrow> bool" where
  "domain_match s =
     (let tld = takeWhile isalpha (rev s); before = dropWhile isalpha (rev s) in
      2 \<le> length tld \<and>
      (case before of
         [] \<Rightarrow> False
       | dot # dpart \<Rightarrow> dot = CHR ''.'' \<and> dpart \<noteq> [] \<and> list_all is_domain_char dpart))"

definition chop_newline :: "string \<Rightarrow> string" where
  "chop_newline s = (if s \<noteq> [] \<and> last s = CHR 0x0A then butlast s else s)"

definition email_match :: "string \<Rightarrow> bool" where
  "email_match s =
     (let t = chop_newline s in
      takeWhile is_local_char t \<noteq> [] \<and>
      (case dropWhile is_local_char t of
         [] \<Rightarrow> False
       | sep # rest \<Rightarrow> sep = CHR ''@'' \<and> domain_match rest))"

definition validate_email :: "string \<Rightarrow> error + string" where
  "validate_email em =
     (if em = [] then Inl (ValueError ''Email must be a non-empty string'')
      else if \<not> email_match em then Inl (ValueError ''Invalid email format'')
      else Inr (str_lower (str_strip em)))"

definition validate_phone :: "string \<Rightarrow> error + string" where
  "validate_phone ph =
     (if ph = [] then Inl (ValueError ''Phone number must be a non-empty string'')
      else if length (filter isdigit ph) < 10 then
        Inl (ValueError ''Phone number must contain at least 10 digits'')
      else Inr (str_strip ph))"

definition validate_date :: "string \<Rightarrow> error + string" where
  "validate_date date_str =
     (if date_str = [] then Inl (ValueError ''Date must be a non-empty string'')
      else case strptime date_str of
             None \<Rightarrow> Inl (ValueError ''Date must be in YYYY-MM-DD format'')
           | Some _ \<Rightarrow> Inr date_str)"

text \<open>
  \<open>_validate_gpa\<close>: the value is a number by its type. NaN is neither less than 0 nor
  greater than 4, so it passes.
\<close>

definition validate_gpa :: "pyfloat \<Rightarrow> error + pyfloat" where
  "validate_gpa g =
     (if fl_less g (Finite 0) \<or> fl_less (Finite 4) g then
        Inl (ValueError ''GPA must be between 0.0 and 4.0'')
      else Inr g)"

subsection \<open>Construction\<close>

text \<open>
  \<open>Student.__init__\<close>: the validators run in the order of the source and the first
  failure is raised; \<open>now\<close> is the clock read for the enrollment date.
\<close>

definition init_student ::
  "datetime \<Rightarrow> string \<Rightarrow> string \<Rightarrow> string \<Rightarrow> string \<Rightarrow> string \<Rightarrow> string \<Rightarrow> string \<Rightarrow> string \<Rightarrow> pyfloat
     \<Rightarrow> error + student" where
  "init_student now sid fname lname em ph dob addr maj g =
     res_bind (validate_student_id sid) (\<lambda>sid'.
     res_bind (validate_name fname ''First name'') (\<lambda>fname'.
     res_bind (validate_name lname ''Last name'') (\<lambda>lname'.
     res_bind (validate_email em) (\<lambda>em'.
     res_bind (validate_phone ph) (\<lambda>ph'.
     res_bind (validate_date dob) (\<lambda>dob'.
     res_bind (validate_gpa g) (\<lambda>g'.
       Inr \<lparr>student_id = sid', first_name = fname', last_name = lname', email = em',
            phone = ph', date_of_birth = dob', address = addr, major = maj, gpa = g',
            enrollment_date = strftime_date now, courses = [], grades = []\<rparr>)))))))"

subsection \<open>Courses and grades\<close>

text \<open>
  A method that mutates the student returns the student after the call together with
  what the call returned or raised.
\<close>

definition add_course :: "student \<Rightarrow> string \<Rightarrow> student \<times> (error + bool)" where
  "add_course s course_name =
     (if course_name = [] then (s, Inl (ValueError ''Course name must be a non-empty string''))
      else let c = str_strip course_name in
        if c \<notin> set (courses s) then (s\<lparr>courses := courses s @ [c]\<rparr>, Inr True)
        else (s, Inr False))"

definition remove_course :: "student \<Rightarrow> string \<Rightarrow> student \<times> bool" where
  "remove_course s course_name =
     (if course_name \<in> set (courses s) then
        (s\<lparr>courses := remove1 course_name (courses s),
           grades := (if course_name \<in> set (dict_keys (grades s))
                      then dict_del course_name (grades s) else grades s)\<rparr>, True)
      else (s, False))"

definition update_gpa :: "student \<Rightarrow> student" where
  "update_gpa s =
     (if grades s \<noteq> [] then
        s\<lparr>gpa := fl_div (fl_sum (dict_values (grades s))) (length (grades s))\<rparr>
      else s\<lparr>gpa := Finite 0\<rparr>)"

text \<open>
  \<open>add_grade\<close>: the grade is a number by its type; as in \<open>_validate_gpa\<close>, NaN passes
  the two comparisons.
\<close>

definition add_grade :: "student \<Rightarrow> string \<Rightarrow> pyfloat \<Rightarrow> student \<times> (error + bool)" where
  "add_grade s course_name grade =
     (if course_name \<notin> set (courses s) then
        (s, Inl (ValueError (''Course '' @ [CHR 0x27] @ course_name @ [CHR 0x27] @
                             '' not found in student'' @ [CHR 0x27] @ ''s course list'')))
      else if fl_less grade (Finite 0) \<or> fl_less (Finite 4) grade then
        (s, Inl (ValueError ''Grade must be between 0.0 and 4.0''))
      else (update_gpa (s\<lparr>grades := dict_set course_name grade (grades s)\<rparr>), Inr True))"

definition get_full_name :: "student \<Rightarrow> string" where
  "get_full_name s = first_name s @ '' '' @ last_name s"

text \<open>\<open>get_age\<close> reads the clock; it raises when the stored date does not parse.\<close>

definition get_age :: "datetime \<Rightarrow> student \<Rightarrow> error + int" where
  "get_age today s =
     (case strptime (date_of_birth s) of
        None \<Rightarrow> Inl (ValueError ''time data does not match format'')
      | Some (b_year, b_month, b_day) \<Rightarrow>
          (let age = int (dt_year today) - int b_year in
           if dt_month today < b_month \<or> (dt_month today = b_month \<and> dt_day today < b_day)
           then Inr (age - 1) else Inr age))"

subsection \<open>Serialisation\<close>

text \<open>
  The dictionary written to and read from the JSON file. A key may be missing in a file
  that was not written by \<open>to_dict\<close>, so every entry is optional; \<open>data[key]\<close> on a
  missing key raises \<open>KeyError\<close>, \<open>data.get(key, default)\<close> yields the default.
\<close>

record student_dict =
  d_student_id :: "string option"
  d_first_name :: "string option"
  d_last_name :: "string option"
  d_email :: "string option"
  d_phone :: "string option"
  d_date_of_birth :: "string option"
  d_address :: "string option"
  d_major :: "string option"
  d_gpa :: "pyfloat option"
  d_enrollment_date :: "string option"
  d_courses :: "string list option"
  d_grades :: "(string \<times> pyfloat) list option"

definition to_dict :: "student \<Rightarrow> student_dict" where
  "to_dict s =
     \<lparr>d_student_id = Some (student_id s), d_first_name = Some (first_name s),
      d_last_name = Some (last_name s), d_email = Some (email s), d_phone = Some (phone s),
      d_date_of_birth = Some (date_of_birth s), d_address = Some (address s),
      d_major = Some (major s), d_gpa = Some (gpa s),
      d_enrollment_date = Some (enrollment_date s), d_courses = Some (courses s),
      d_grades = Some (grades s)\<rparr>"

definition get_item :: "'a option \<Rightarrow> string \<Rightarrow> error + 'a" where
  "get_item entry key = (case entry of None \<Rightarrow> Inl (KeyError key) | Some v \<Rightarrow> Inr v)"

definition get_or :: "'a option \<Rightarrow> 'a \<Rightarrow> 'a" where
  "get_or entry dflt = (case entry of None \<Rightarrow> dflt | Some v \<Rightarrow> v)"

definition from_dict :: "datetime \<Rightarrow> student_dict \<Rightarrow> error + student" where
  "from_dict now data =
     res_bind (get_item (d_student_id data) ''student_id'') (\<lambda>sid.
     res_bind (get_item (d_first_name data) ''first_name'') (\<lambda>fname.
     res_bind (get_item (d_last_name data) ''last_name'') (\<lambda>lname.
     res_bind (get_item (d_email data) ''email'') (\<lambda>em.
     res_bind (get_item (d_phone data) ''phone'') (\<lambda>ph.
     res_bind (get_item (d_date_of_birth data) ''date_of_birth'') (\<lambda>dob.
     res_bind (init_student now sid fname lname em ph dob
                 (get_or (d_address data) []) (get_or (d_major data) [])
                 (get_or (d_gpa data) (Finite 0))) (\<lambda>st.
       Inr (st\<lparr>enrollment_date := get_or (d_enrollment_date data) (enrollment_date st),
               courses := get_or (d_courses data) [],
               grades := get_or (d_grades data) []\<rparr>))))))))"

subsection \<open>Updating fields\<close>

definition updatable_fields :: "string list" where
  "updatable_fields = [''first_name'', ''last_name'', ''email'', ''phone'', ''address'', ''major'']"

text \<open>\<open>setattr(self, field, v)\<close> for the fields that \<open>update_info\<close> assigns.\<close>

definition setattr_student :: "student \<Rightarrow> string \<Rightarrow> string \<Rightarrow> student" where
  "setattr_student s field v =
     (if field = ''first_name'' then s\<lparr>first_name := v\<rparr>
      else if field = ''last_name'' then s\<lparr>last_name := v\<rparr>
      else if field = ''email'' then s\<lparr>email := v\<rparr>
      else if field = ''phone'' then s\<lparr>phone := v\<rparr>
      else if field = ''address'' then s\<lparr>address := v\<rparr>
      else if field = ''major'' then s\<lparr>major := v\<rparr>
      else s)"

text \<open>
  The loop of \<open>update_info\<close> over the keyword arguments, in their order. A validator
  that raises ends the loop; the fields assigned before it stay assigned.
\<close>

fun update_info :: "student \<Rightarrow> (string \<times> string) list \<Rightarrow> student \<times> error option" where
  "update_info s [] = (s, None)"
| "update_info s ((field, val) # kwargs) =
     (if field \<in> set updatable_fields then
        (if field \<in> set [''first_name'', ''last_name''] then
           (case validate_name val (str_title (replace_underscores field)) of
              Inl e \<Rightarrow> (s, Some e)
            | Inr v \<Rightarrow> update_info (setattr_student s field v) kwargs)
         else if field \<in> set [''email'', ''phone''] then
           (case (if field = ''email'' then validate_email val else validate_phone val) of
              Inl e \<Rightarrow> (s, Some e)
            | Inr v \<Rightarrow> update_info (setattr_student s field v) kwargs)
         else update_info (setattr_student s field (str_strip val)) kwargs)
      else update_info s kwargs)"

section \<open>The database (database.py)\<close>

subsection \<open>The files\<close>

text \<open>
  The JSON file holds either the text of a list of dictionaries, which \<open>json.load\<close>
  reads back as that list, or a text that does not parse. \<open>Truncated data n\<close> is the file
  after it was opened for writing, which empties it, and only the first \<open>n\<close> characters
  of the text of \<open>data\<close> were written, fewer than the text has. The backup directory
  maps file names to contents.
\<close>

datatype file_content = Json "student_dict list" | Truncated "student_dict list" nat

record storage =
  db_file :: "file_content option"
  backups :: "(string \<times> file_content) list"

text \<open>
  What the operating system does to a write is an input: the write goes through, or
  opening the file fails, or the file is opened and the write fails after \<open>n\<close>
  characters. One value is given for the backup copy and one for the database file.
\<close>

datatype io_fault = NoFault | OpenFails | WriteFails nat

record faults =
  backup_fault :: io_fault
  save_fault :: io_fault

definition load_data :: "storage \<Rightarrow> student_dict list" where
  "load_data st =
     (case db_file st of
        None \<Rightarrow> []
      | Some (Json data) \<Rightarrow> data
      | Some (Truncated data n) \<Rightarrow> [])"

definition backup_name :: "datetime \<Rightarrow> string" where
  "backup_name now = ''backups/students_backup_'' @ strftime_stamp now @ ''.json''"

text \<open>The first \<open>n\<close> characters of a content.\<close>

fun truncate_content :: "nat \<Rightarrow> file_content \<Rightarrow> file_content" where
  "truncate_content n (Json data) = Truncated data n"
| "truncate_content n (Truncated data m) = Truncated data (min n m)"

definition create_backup :: "datetime \<Rightarrow> io_fault \<Rightarrow> storage \<Rightarrow> storage" where
  "create_backup now bf st =
     (case db_file st of
        None \<Rightarrow> st
      | Some content \<Rightarrow>
         (case bf of
            NoFault \<Rightarrow> st\<lparr>backups := dict_set (backup_name now) content (backups st)\<rparr>
          | OpenFails \<Rightarrow> st
          | WriteFails n \<Rightarrow>
              st\<lparr>backups := dict_set (backup_name now) (truncate_content n content) (backups st)\<rparr>))"

definition save_data :: "datetime \<Rightarrow> faults \<Rightarrow> storage \<Rightarrow> student_dict list \<Rightarrow> storage \<times> bool" where
  "save_data now flt st data =
     (let st1 = create_backup now (backup_fault flt) st in
      case save_fault flt of
        NoFault \<Rightarrow> (st1\<lparr>db_file := Some (Json data)\<rparr>, True)
      | OpenFails \<Rightarrow> (st1, False)
      | WriteFails n \<Rightarrow> (st1\<lparr>db_file := Some (Truncated data n)\<rparr>, False))"

subsection \<open>Create, read, update, delete\<close>

text \<open>The loop of \<open>add_student\<close> that looks for the id among the stored dictionaries.\<close>

fun id_exists :: "student_dict list \<Rightarrow> string \<Rightarrow> error + bool" where
  "id_exists [] sid = Inr False"
| "id_exists (existing # data) sid =
     (case d_student_id existing of
        None \<Rightarrow> Inl (KeyError ''student_id'')
      | Some i \<Rightarrow> if i = sid then Inr True else id_exists data sid)"

definition add_student :: "datetime \<Rightarrow> faults \<Rightarrow> storage \<Rightarrow> student \<Rightarrow> storage \<times> (error + bool)" where
  "add_student now flt st s =
     (let data = load_data st in
      case id_exists data (student_id s) of
        Inl e \<Rightarrow> (st, Inl e)
      | Inr True \<Rightarrow> (st, Inr False)
      | Inr False \<Rightarrow>
          (let (st', ok) = save_data now flt st (data @ [to_dict s]) in (st', Inr ok)))"

fun find_student :: "datetime \<Rightarrow> student_dict list \<Rightarrow> string \<Rightarrow> error + student option" where
  "find_student now [] sid = Inr None"
| "find_student now (student_data # data) sid =
     (case d_student_id student_data of
        None \<Rightarrow> Inl (KeyError ''student_id'')
      | Some i \<Rightarrow>
          if i = str_upper sid then
            (case from_dict now student_data of Inl e \<Rightarrow> Inl e | Inr s \<Rightarrow> Inr (Some s))
          else find_student now data sid)"

definition get_student :: "datetime \<Rightarrow> storage \<Rightarrow> string \<Rightarrow> error + student option" where
  "get_student now st sid = find_student now (load_data st) sid"

fun load_students :: "datetime \<Rightarrow> student_dict list \<Rightarrow> student list" where
  "load_students now [] = []"
| "load_students now (student_data # data) =
     (case from_dict now student_data of
        Inl e \<Rightarrow> load_students now data
      | Inr s \<Rightarrow> s # load_students now data)"

definition get_all_students :: "datetime \<Rightarrow> storage \<Rightarrow> student list" where
  "get_all_students now st = load_students now (load_data st)"

text \<open>
  The loops of \<open>update_student\<close> and \<open>delete_student\<close>: the list with the first
  dictionary of the id replaced or deleted, \<open>None\<close> when no dictionary has the id.
\<close>

fun replace_first :: "student_dict list \<Rightarrow> string \<Rightarrow> student_dict \<Rightarrow> error + student_dict list option" where
  "replace_first [] sid new = Inr None"
| "replace_first (existing # data) sid new =
     (case d_student_id existing of
        None \<Rightarrow> Inl (KeyError ''student_id'')
      | Some i \<Rightarrow>
          if i = sid then Inr (Some (new # data))
          else (case replace_first data sid new of
                  Inl e \<Rightarrow> Inl e
                | Inr None \<Rightarrow> Inr None
                | Inr (Some data') \<Rightarrow> Inr (Some (existing # data'))))"

definition update_student :: "datetime \<Rightarrow> faults \<Rightarrow> storage \<Rightarrow> student \<Rightarrow> storage \<times> (error + bool)" where
  "update_student now flt st s =
     (case replace_first (load_data st) (student_id s) (to_dict s) of
        Inl e \<Rightarrow> (st, Inl e)
      | Inr None \<Rightarrow> (st, Inr False)
      | Inr (Some data') \<Rightarrow> (let (st', ok) = save_data now flt st data' in (st', Inr ok)))"

fun delete_first :: "student_dict list \<Rightarrow> string \<Rightarrow> error + student_dict list option" where
  "delete_first [] sid = Inr None"
| "delete_first (student_data # data) sid =
     (case d_student_id student_data of
        None \<Rightarrow> Inl (KeyError ''student_id'')
      | Some i \<Rightarrow>
          if i = sid then Inr (Some data)
          else (case delete_first data sid of
                  Inl e \<Rightarrow> Inl e
                | Inr None \<Rightarrow> Inr None
                | Inr (Some data') \<Rightarrow> Inr (Some (student_data # data'))))"

definition delete_student :: "datetime \<Rightarrow> faults \<Rightarrow> storage \<Rightarrow> string \<Rightarrow> storage \<times> (error + bool)" where
  "delete_student now flt st sid =
     (case delete_first (load_data st) (str_upper sid) of
        Inl e \<Rightarrow> (st, Inl e)
      | Inr None \<Rightarrow> (st, Inr False)
      | Inr (Some data') \<Rightarrow> (let (st', ok) = save_data now flt st data' in (st', Inr ok)))"

subsection \<open>Search\<close>

text \<open>
  The values a caller passes as search criteria: strings, numbers, lists of strings and
  dictionaries from strings to numbers. An attribute of a student read by name holds
  such a value or something else, a bound method for instance, which no criterion equals.
\<close>

datatype pyval = PStr string | PNum pyfloat | PList "string list" | PDict "(string \<times> pyfloat) list"

datatype attr_val = AVal pyval | AOther

text \<open>
  What the interpreter supplies: \<open>float\<close> and \<open>int\<close> on a string (\<open>None\<close> stands for
  their \<open>ValueError\<close>), and the attributes every object inherits, such as \<open>__doc__\<close>.
\<close>

record pyenv =
  float_of_str :: "string \<Rightarrow> pyfloat option"
  int_of_str :: "string \<Rightarrow> int option"
  inherited_attr :: "string \<Rightarrow> attr_val option"

definition py_float :: "pyenv \<Rightarrow> pyval \<Rightarrow> error + pyfloat" where
  "py_float env v =
     (case v of
        PNum x \<Rightarrow> Inr x
      | PStr t \<Rightarrow> (case float_of_str env t of
                     None \<Rightarrow> Inl (ValueError ''could not convert string to float'')
                   | Some x \<Rightarrow> Inr x)
      | PList l \<Rightarrow> Inl TypeError
      | PDict d \<Rightarrow> Inl TypeError)"

definition py_int :: "pyenv \<Rightarrow> pyval \<Rightarrow> error + int" where
  "py_int env v =
     (case v of
        PNum (Finite x) \<Rightarrow> Inr (if 0 \<le> x then \<lfloor>x\<rfloor> else \<lceil>x\<rceil>)
      | PNum NaN \<Rightarrow> Inl (ValueError ''cannot convert float NaN to integer'')
      | PNum PosInf \<Rightarrow> Inl OverflowError
      | PNum NegInf \<Rightarrow> Inl OverflowError
      | PStr t \<Rightarrow> (case int_of_str env t of
                     None \<Rightarrow> Inl (ValueError ''invalid literal for int()'')
                   | Some i \<Rightarrow> Inr i)
      | PList l \<Rightarrow> Inl TypeError
      | PDict d \<Rightarrow> Inl TypeError)"

definition py_lower :: "pyval \<Rightarrow> error + string" where
  "py_lower v = (case v of PStr t \<Rightarrow> Inr (str_lower t) | _ \<Rightarrow> Inl AttributeError)"

text \<open>
  \<open>==\<close> on values; dictionaries are equal when they have the same keys with equal
  values.
\<close>

fun py_eq :: "pyval \<Rightarrow> pyval \<Rightarrow> bool" where
  "py_eq (PStr a) (PStr b) = (a = b)"
| "py_eq (PNum a) (PNum b) = fl_eq a b"
| "py_eq (PList a) (PList b) = (a = b)"
| "py_eq (PDict a) (PDict b) =
     (set (dict_keys a) = set (dict_keys b) \<and>
      (\<forall>k \<in> set (dict_keys a).
         case (map_of a k, map_of b k) of (Some x, Some y) \<Rightarrow> fl_eq x y | _ \<Rightarrow> False))"
| "py_eq _ _ = False"

definition student_methods :: "string list" where
  "student_methods =
     [''__init__'', ''_validate_student_id'', ''_validate_name'', ''_validate_email'',
      ''_validate_phone'', ''_validate_date'', ''_validate_gpa'', ''add_course'',
      ''remove_course'', ''add_grade'', ''_update_gpa'', ''get_full_name'', ''get_age'',
      ''to_dict'', ''from_dict'', ''update_info'', ''__str__'', ''__repr__'']"

text \<open>\<open>getattr(student, key)\<close>, \<open>None\<close> when \<open>hasattr(student, key)\<close> is false.\<close>

definition getattr_student :: "pyenv \<Rightarrow> student \<Rightarrow> string \<Rightarrow> attr_val option" where
  "getattr_student env s key =
     (if key = ''student_id'' then Some (AVal (PStr (student_id s)))
      else if key = ''first_name'' then Some (AVal (PStr (first_name s)))
      else if key = ''last_name'' then Some (AVal (PStr (last_name s)))
      else if key = ''email'' then Some (AVal (PStr (email s)))
      else if key = ''phone'' then Some (AVal (PStr (phone s)))
      else if key = ''date_of_birth'' then Some (AVal (PStr (date_of_birth s)))
      else if key = ''address'' then Some (AVal (PStr (address s)))
      else if key = ''major'' then Some (AVal (PStr (major s)))
      else if key = ''gpa'' then Some (AVal (PNum (gpa s)))
      else if key = ''enrollment_date'' then Some (AVal (PStr (enrollment_date s)))
      else if key = ''courses'' then Some (AVal (PList (courses s)))
      else if key = ''grades'' then Some (AVal (PDict (grades s)))
      else if key \<in> set student_methods then Some AOther
      else inherited_attr env key)"

text \<open>
  One pass of the inner loop of \<open>search_students\<close>: \<open>Inr False\<close> is the branch that sets
  \<open>match = False\<close> and breaks, \<open>Inr True\<close> goes on to the next criterion.
\<close>

definition check_criterion :: "pyenv \<Rightarrow> datetime \<Rightarrow> student \<Rightarrow> string \<times> pyval \<Rightarrow> error + bool" where
  "check_criterion env now s kv =
     (let key = fst kv; val = snd kv in
      if key = ''name'' then
        res_bind (py_lower val) (\<lambda>v. Inr (str_contains v (str_lower (get_full_name s))))
      else if key = ''major'' then
        res_bind (py_lower val) (\<lambda>v. Inr (str_contains v (str_lower (major s))))
      else if key = ''email'' then
        res_bind (py_lower val) (\<lambda>v. Inr (str_contains v (str_lower (email s))))
      else if key = ''gpa_min'' then
        res_bind (py_float env val) (\<lambda>v. Inr (\<not> fl_less (gpa s) v))
      else if key = ''gpa_max'' then
        res_bind (py_float env val) (\<lambda>v. Inr (\<not> fl_less v (gpa s)))
      else if key = ''age_min'' then
        res_bind (get_age now s) (\<lambda>a. res_bind (py_int env val) (\<lambda>v. Inr (\<not> a < v)))
      else if key = ''age_max'' then
        res_bind (get_age now s) (\<lambda>a. res_bind (py_int env val) (\<lambda>v. Inr (\<not> a > v)))
      else
        (case getattr_student env s key of
           None \<Rightarrow> Inr True
         | Some AOther \<Rightarrow> Inr False
         | Some (AVal student_value) \<Rightarrow>
            (case (student_value, val) of
               (PStr a, PStr b) \<Rightarrow> Inr (str_contains (str_lower b) (str_lower a))
             | _ \<Rightarrow> Inr (py_eq student_value val))))"

fun matches :: "pyenv \<Rightarrow> datetime \<Rightarrow> student \<Rightarrow> (string \<times> pyval) list \<Rightarrow> error + bool" where
  "matches env now s [] = Inr True"
| "matches env now s (kv # criteria) =
     (case check_criterion env now s kv of
        Inl e \<Rightarrow> Inl e
      | Inr False \<Rightarrow> Inr False
      | Inr True \<Rightarrow> matches env now s criteria)"

fun search_loop :: "pyenv \<Rightarrow> datetime \<Rightarrow> student list \<Rightarrow> (string \<times> pyval) list \<Rightarrow> error + student list" where
  "search_loop env now [] criteria = Inr []"
| "search_loop env now (s # all_students) criteria =
     (case matches env now s criteria of
        Inl e \<Rightarrow> Inl e
      | Inr m \<Rightarrow>
          (case search_loop env now all_students criteria of
             Inl e \<Rightarrow> Inl e
           | Inr matching \<Rightarrow> Inr (if m then s # matching else matching)))"

definition search_students :: "pyenv \<Rightarrow> datetime \<Rightarrow> storage \<Rightarrow> (string \<times> pyval) list \<Rightarrow> error + student list" where
  "search_students env now st criteria =
     search_loop env now (get_all_students now st) criteria"

subsection \<open>Statistics\<close>

text \<open>
  \<open>round(x, 2)\<close>: a finite number goes to the nearest hundredth, a tie to the even
  one; an infinity and NaN are returned as they are.
\<close>

definition round_half_even :: "real \<Rightarrow> int" where
  "round_half_even y =
     (let f = \<lfloor>y\<rfloor>; r = y - of_int f in
      if r < 1 / 2 then f else if r > 1 / 2 then f + 1 else if even f then f else f + 1)"

fun round2 :: "pyfloat \<Rightarrow> pyfloat" where
  "round2 (Finite x) = Finite (of_int (round_half_even (x * 100)) / 100)"
| "round2 x = x"

record statistics =
  total_students :: nat
  average_gpa :: pyfloat
  majors :: "(string \<times> nat) list"
  age_distribution :: "(string \<times> nat) list"

fun count_majors :: "student list \<Rightarrow> (string \<times> nat) list \<Rightarrow> (string \<times> nat) list" where
  "count_majors [] acc = acc"
| "count_majors (s # students) acc =
     (let m = (if major s = [] then ''Undeclared'' else major s) in
      count_majors students (dict_set m (dict_get acc m 0 + 1) acc))"

definition age_range :: "int \<Rightarrow> string" where
  "age_range age =
     (if 18 \<le> age \<and> age \<le> 20 then ''18-20''
      else if 21 \<le> age \<and> age \<le> 25 then ''21-25''
      else if 26 \<le> age \<and> age \<le> 30 then ''26-30''
      else ''30+'')"

fun count_ages :: "datetime \<Rightarrow> student list \<Rightarrow> (string \<times> nat) list \<Rightarrow> error + (string \<times> nat) list" where
  "count_ages now [] acc = Inr acc"
| "count_ages now (s # students) acc =
     (case get_age now s of
        Inl e \<Rightarrow> Inl e
      | Inr age \<Rightarrow>
          count_ages now students (dict_set (age_range age) (dict_get acc (age_range age) 0 + 1) acc))"

definition statistics_of :: "datetime \<Rightarrow> student list \<Rightarrow> error + statistics" where
  "statistics_of now students =
     (if students = [] then
        Inr \<lparr>total_students = 0, average_gpa = Finite 0, majors = [], age_distribution = []\<rparr>
      else
        (let total_gpa = fl_sum (map gpa (filter (\<lambda>s. fl_less (Finite 0) (gpa s)) students));
             students_with_gpa = length (filter (\<lambda>s. fl_less (Finite 0) (gpa s)) students);
             average = (if students_with_gpa > 0 then fl_div total_gpa students_with_gpa
                        else Finite 0)
         in case count_ages now students
                   [(''18-20'', 0), (''21-25'', 0), (''26-30'', 0), (''30+'', 0)] of
              Inl e \<Rightarrow> Inl e
            | Inr age_ranges \<Rightarrow>
                Inr \<lparr>total_students = length students, average_gpa = round2 average,
                     majors = count_majors students [], age_distribution = age_ranges\<rparr>))"

definition get_statistics :: "datetime \<Rightarrow> storage \<Rightarrow> error + statistics" where
  "get_statistics now st = statistics_of now (get_all_students now st)"

section \<open>The manager (student_manager.py)\<close>




section \<open>Notions of the specification and test data\<close>

text \<open>The arithmetic mean of a list of numbers.\<close>

definition mean :: "pyfloat list \<Rightarrow> pyfloat" where
  "mean xs = fl_div (fl_sum xs) (length xs)"

text \<open>A reading of the clock, and a student with one course and no grade.\<close>

definition clock0 :: datetime where
  "clock0 = \<lparr>dt_year = 2026, dt_month = 11, dt_day = 4, dt_hour = 9, dt_minute = 30, dt_second = 0\<rparr>"

definition alice :: student where
  "alice = \<lparr>student_id = ''STU001'', first_name = ''Alice'', last_name = ''Johnson'',
            email = ''alice@uni.edu'', phone = ''5551234567'', date_of_birth = ''2001-03-15'',
            address = [], major = [], gpa = Finite 0, enrollment_date = ''2026-11-04'',
            courses = [''Algorithms''], grades = []\<rparr>"

text \<open>A stored dictionary whose course name was not stripped.\<close>

definition raw_course_dict :: student_dict where
  "raw_course_dict =
     \<lparr>d_student_id = Some ''STU001'', d_first_name = Some ''Alice'',
      d_last_name = Some ''Johnson'', d_email = Some ''alice@uni.edu'',
      d_phone = Some ''5551234567'', d_date_of_birth = Some ''2001-03-15'',
      d_address = Some [], d_major = Some [], d_gpa = Some (Finite 0),
      d_enrollment_date = Some ''2026-11-04'', d_courses = Some ['' Math ''],
      d_grades = Some []\<rparr>"

text \<open>
  The operations that mutate a student, and a student after a sequence of them. The
  student after a call is the first component of what the method returns, whether the
  call returned or raised.
\<close>

datatype student_op =
  AddCourse string
| RemoveCourse string
| AddGrade string pyfloat
| UpdateInfo "(string \<times> string) list"

fun apply_op :: "student \<Rightarrow> student_op \<Rightarrow> student" where
  "apply_op s (AddCourse n) = fst (add_course s n)"
| "apply_op s (RemoveCourse n) = fst (remove_course s n)"
| "apply_op s (AddGrade n g) = fst (add_grade s n g)"
| "apply_op s (UpdateInfo kwargs) = fst (update_info s kwargs)"

fun run_ops :: "student \<Rightarrow> student_op list \<Rightarrow> student" where
  "run_ops s [] = s"
| "run_ops s (op # ops) = run_ops (apply_op s op) ops"

fun is_removal :: "student_op \<Rightarrow> bool" where
  "is_removal (RemoveCourse n) = True"
| "is_removal _ = False"

text \<open>Every course with a grade is among the courses.\<close>

definition grades_in_courses :: "student \<Rightarrow> bool" where
  "grades_in_courses s = (set (dict_keys (grades s)) \<subseteq> set (courses s))"

text \<open>A stored dictionary with a grade for a course that is not in the course list.\<close>

definition orphan_grade_dict :: student_dict where
  "orphan_grade_dict =
     \<lparr>d_student_id = Some ''STU001'', d_first_name = Some ''Alice'',
      d_last_name = Some ''Johnson'', d_email = Some ''alice@uni.edu'',
      d_phone = Some ''5551234567'', d_date_of_birth = Some ''2001-03-15'',
      d_address = Some [], d_major = Some [], d_gpa = Some (Finite 3),
      d_enrollment_date = Some ''2026-11-04'', d_courses = Some [],
      d_grades = Some [(''Math'', Finite 3)]\<rparr>"

text \<open>
  A student as the constructor returns it when a gpa of 3.5 is passed in, and a sequence
  of operations on it.
\<close>

definition fresh_student :: student where
  "fresh_student =
     \<lparr>student_id = ''STU001'', first_name = ''Alice'', last_name = ''Johnson'',
      email = ''alice@uni.edu'', phone = ''5551234567'', date_of_birth = ''2001-03-15'',
      address = [], major = [], gpa = Finite 3.5, enrollment_date = ''2026-11-04'',
      courses = [], grades = []\<rparr>"

definition study_ops :: "student_op list" where
  "study_ops =
     [AddCourse ''Algorithms'', AddGrade ''Algorithms'' (Finite 3.8), UpdateInfo [(''major'', ''Physics'')],
      AddCourse ''Databases'', AddGrade ''Databases'' (Finite 3)]"

text \<open>Storage without faults, an empty file, and a file that holds one student.\<close>

definition no_faults :: faults where
  "no_faults = \<lparr>backup_fault = NoFault, save_fault = NoFault\<rparr>"

definition write_fails :: faults where
  "write_fails = \<lparr>backup_fault = NoFault, save_fault = WriteFails 0\<rparr>"

definition empty_storage :: storage where
  "empty_storage = \<lparr>db_file = Some (Json []), backups = []\<rparr>"

definition alice_storage :: storage where
  "alice_storage = \<lparr>db_file = Some (Json [to_dict alice]), backups = []\<rparr>"

definition bob :: student where
  "bob = \<lparr>student_id = ''STU002'', first_name = ''Bob'', last_name = ''Smith'',
          email = ''bob@uni.edu'', phone = ''5559876543'', date_of_birth = ''2000-07-22'',
          address = [], major = ''Physics'', gpa = Finite 0, enrollment_date = ''2026-11-04'',
          courses = [], grades = []\<rparr>"

definition open_fails :: faults where
  "open_fails = \<lparr>backup_fault = WriteFails 3, save_fault = OpenFails\<rparr>"

text \<open>
  \<open>a \<le> b\<close> on floats, the inclusive bound of the specification.
\<close>

definition fl_le :: "pyfloat \<Rightarrow> pyfloat \<Rightarrow> bool" where
  "fl_le a b = (fl_less a b \<or> fl_eq a b)"

text \<open>
  The keys that \<open>search_students\<close> treats by name, the fields of a student, and the
  keys that are neither and name no attribute of a student at all.
\<close>

definition search_keys :: "string list" where
  "search_keys = [''name'', ''major'', ''email'', ''gpa_min'', ''gpa_max'', ''age_min'', ''age_max'']"

definition field_names :: "string list" where
  "field_names =
     [''student_id'', ''first_name'', ''last_name'', ''email'', ''phone'', ''date_of_birth'',
      ''address'', ''major'', ''gpa'', ''enrollment_date'', ''courses'', ''grades'']"

definition unknown_key :: "pyenv \<Rightarrow> string \<Rightarrow> bool" where
  "unknown_key env key =
     (key \<notin> set search_keys \<and> key \<notin> set field_names \<and> key \<notin> set student_methods \<and>
      inherited_attr env key = None)"

text \<open>
  An interpreter for the examples. The examples pass numbers, so no string is
  converted. The inherited attributes are those of \<open>object\<close>; \<open>__module__\<close> and
  \<open>__doc__\<close> are strings.
\<close>

definition object_attrs :: "string list" where
  "object_attrs =
     [''__class__'', ''__delattr__'', ''__dict__'', ''__dir__'', ''__eq__'', ''__format__'',
      ''__ge__'', ''__getattribute__'', ''__gt__'', ''__hash__'', ''__init_subclass__'',
      ''__le__'', ''__lt__'', ''__ne__'', ''__new__'', ''__reduce__'', ''__reduce_ex__'',
      ''__setattr__'', ''__sizeof__'', ''__subclasshook__'', ''__weakref__'']"

definition plain_env :: pyenv where
  "plain_env =
     \<lparr>float_of_str = (\<lambda>t. None), int_of_str = (\<lambda>t. None),
      inherited_attr = (\<lambda>k. if k = ''__module__'' then Some (AVal (PStr ''student''))
                             else if k = ''__doc__'' then
                               Some (AVal (PStr ''Represents a student with personal and academic information.''))
                             else if k \<in> set object_attrs then Some AOther else None)\<rparr>"

text \<open>The three students of \<open>demo.py\<close>, with the gpas 3.8, 3.6 and 3.9, in one file.\<close>

definition demo_alice :: student where
  "demo_alice = alice\<lparr>major := ''Computer Science'', gpa := Finite 3.8\<rparr>"

definition demo_bob :: student where
  "demo_bob = bob\<lparr>major := ''Mathematics'', gpa := Finite 3.6\<rparr>"

definition demo_carol :: student where
  "demo_carol =
     \<lparr>student_id = ''STU003'', first_name = ''Carol'', last_name = ''Davis'',
      email = ''carol@uni.edu'', phone = ''5553456789'', date_of_birth = ''2002-01-10'',
      address = [], major = ''Physics'', gpa = Finite 3.9, enrollment_date = ''2026-11-04'',
      courses = [], grades = []\<rparr>"

definition demo_storage :: storage where
  "demo_storage =
     \<lparr>db_file = Some (Json [to_dict demo_alice, to_dict demo_bob, to_dict demo_carol]),
      backups = []\<rparr>"

text \<open>
  Notions of the statistics: a student with a gpa above 0, the label under which a major
  is counted, and the age buckets. The last bucket holds the ages that are in none of
  the three ranges: below 18 or above 30.
\<close>

definition has_gpa :: "student \<Rightarrow> bool" where
  "has_gpa s = fl_less (Finite 0) (gpa s)"

definition major_label :: "student \<Rightarrow> string" where
  "major_label s = (if major s = [] then ''Undeclared'' else major s)"

definition age_in :: "datetime \<Rightarrow> int \<Rightarrow> int \<Rightarrow> student \<Rightarrow> bool" where
  "age_in now lo hi s = (case get_age now s of Inl e \<Rightarrow> False | Inr a \<Rightarrow> lo \<le> a \<and> a \<le> hi)"

definition age_outside :: "datetime \<Rightarrow> student \<Rightarrow> bool" where
  "age_outside now s = (case get_age now s of Inl e \<Rightarrow> False | Inr a \<Rightarrow> a < 18 \<or> 30 < a)"

text \<open>Four students who are 19, 22, 27 and 35 years old on the day of \<open>clock0\<close>.\<close>

definition aged :: "string \<Rightarrow> string \<Rightarrow> student" where
  "aged sid dob = alice\<lparr>student_id := sid, date_of_birth := dob\<rparr>"

definition ages_storage :: storage where
  "ages_storage =
     \<lparr>db_file = Some (Json [to_dict (aged ''STU019'' ''2007-01-01''),
                            to_dict (aged ''STU022'' ''2004-11-04''),
                            to_dict (aged ''STU027'' ''1998-12-25''),
                            to_dict (aged ''STU035'' ''1991-06-30'')]),
      backups = []\<rparr>"

text \<open>
  The student that the constructor returns for the id \<open>"  a"\<close>: the id has three
  characters, so it passes the length check, and is stored stripped, as \<open>"A"\<close>.
\<close>

definition padded_id_student :: student where
  "padded_id_student =
     \<lparr>student_id = ''A'', first_name = ''Carol'', last_name = ''Diaz'',
      email = ''carol@uni.edu'', phone = ''5550001111'', date_of_birth = ''2002-05-06'',
      address = [], major = [], gpa = Finite 0, enrollment_date = ''2026-11-04'',
      courses = [], grades = []\<rparr>"

section \<open>Properties\<close>

subsection \<open>Dictionaries\<close>

lemma map_of_dict_set: "map_of (dict_set k v d) = (map_of d)(k \<mapsto> v)"
  by (induction d) auto

lemma dict_set_not_Nil: "dict_set k v d \<noteq> []"
  by (cases d) auto

lemma keys_dict_set: "set (dict_keys (dict_set k v d)) = insert k (set (dict_keys d))"
  by (induction d) (auto simp: dict_keys_def)

lemma keys_dict_del: "set (dict_keys (dict_del k d)) = set (dict_keys d) - {k}"
  by (auto simp: dict_keys_def dict_del_def)

subsection \<open>Recording a grade\<close>

text \<open>
  What \<open>add_grade\<close> does in every case. It raises a \<open>ValueError\<close> and leaves the student
  as it was when the course is not among the student's courses or the grade is less
  than 0 or greater than 4. In every other case it returns \<open>True\<close>, assigns the grade to
  the course in the dictionary (in place when the course had a grade, at the end
  otherwise), sets the gpa to the mean of the values now in the dictionary and changes
  nothing else.
\<close>

lemma add_grade_cases:
  "(course \<notin> set (courses s) \<or> fl_less grade (Finite 0) \<or> fl_less (Finite 4) grade \<longrightarrow>
      (\<exists>msg. add_grade s course grade = (s, Inl (ValueError msg))))
   \<and> (course \<in> set (courses s) \<and> \<not> fl_less grade (Finite 0) \<and> \<not> fl_less (Finite 4) grade \<longrightarrow>
        add_grade s course grade =
          (s\<lparr>grades := dict_set course grade (grades s),
             gpa := mean (dict_values (dict_set course grade (grades s)))\<rparr>, Inr True))"
  by (auto simp: add_grade_def update_gpa_def dict_set_not_Nil mean_def dict_values_def)

lemma dict_set_new:
  "k \<notin> set (dict_keys d) \<Longrightarrow> dict_set k v d = d @ [(k, v)]"
  by (induction d) (auto simp: dict_keys_def)

lemma dict_set_old:
  "k \<in> set (dict_keys d) \<Longrightarrow> distinct (dict_keys d) \<Longrightarrow>
     dict_set k v d = map (\<lambda>p. if fst p = k then (k, v) else p) d"
proof (induction d)
  case Nil
  then show ?case by (simp add: dict_keys_def)
next
  case (Cons p d)
  show ?case
  proof (cases "fst p = k")
    case True
    with Cons.prems(2) have "k \<notin> fst ` set d"
      by (simp add: dict_keys_def)
    then have "\<forall>q \<in> set d. fst q \<noteq> k"
      by blast
    then have "map (\<lambda>p. if fst p = k then (k, v) else p) d = d"
      by (induction d) auto
    with True show ?thesis by simp
  next
    case False
    with Cons show ?thesis by (auto simp: dict_keys_def)
  qed
qed

text \<open>
  Claim C4 holds for every grade that is a number. It fails for the float NaN, which
  is not in \<open>[0, 4]\<close>: NaN is neither less than 0 nor greater than 4, so \<open>add_grade\<close>
  does not raise; it stores NaN as the grade, the gpa becomes NaN, and the call
  returns \<open>True\<close>.
\<close>

theorem nan_grade_accepted:
  "''Algorithms'' \<in> set (courses alice)
   \<and> \<not> fl_less NaN (Finite 0) \<and> \<not> fl_less (Finite 4) NaN
   \<and> add_grade alice ''Algorithms'' NaN =
       (alice\<lparr>gpa := NaN, grades := [(''Algorithms'', NaN)]\<rparr>, Inr True)"
  by code_simp

subsection \<open>Adding and removing a course\<close>

lemma str_strip_Nil: "str_strip [] = []"
  by (simp add: str_strip_def)

text \<open>
  Claim C10, amended. Let \<open>n\<close> be a course name with surrounding whitespace whose
  stripped form is not among the courses, and let \<open>n\<close> itself not be among them
  either. Then \<open>add_course\<close> appends the stripped form and returns \<open>True\<close>, and
  \<open>remove_course\<close> with the same raw \<open>n\<close> right after returns \<open>False\<close> and changes
  nothing.
\<close>

theorem add_course_then_remove_raw:
  assumes "str_strip n \<noteq> n" and "str_strip n \<notin> set (courses s)" and "n \<notin> set (courses s)"
  shows "add_course s n = (s\<lparr>courses := courses s @ [str_strip n]\<rparr>, Inr True)
       \<and> remove_course (fst (add_course s n)) n = (fst (add_course s n), False)"
proof -
  from assms(1) have "n \<noteq> []" using str_strip_Nil by auto
  with assms show ?thesis
    by (auto simp: add_course_def remove_course_def Let_def)
qed

theorem add_course_then_remove_raw_witness:
  "str_strip '' Math '' \<noteq> '' Math '' \<and> str_strip '' Math '' \<notin> set (courses alice)
   \<and> '' Math '' \<notin> set (courses alice)
   \<and> (add_course alice '' Math '' =
         (alice\<lparr>courses := courses alice @ [str_strip '' Math '']\<rparr>, Inr True)
       \<and> remove_course (fst (add_course alice '' Math '')) '' Math '' =
         (fst (add_course alice '' Math ''), False))"
proof -
  have a: "str_strip '' Math '' = ''Math''" by code_simp
  have h1: "str_strip '' Math '' \<noteq> '' Math ''" unfolding a by simp
  have h2: "str_strip '' Math '' \<notin> set (courses alice)" unfolding a by (simp add: alice_def)
  have h3: "'' Math '' \<notin> set (courses alice)" by (simp add: alice_def)
  from add_course_then_remove_raw [OF h1 h2 h3] h1 h2 h3 show ?thesis by blast
qed

text \<open>
  Claim C10 as it was stated fails for a student whose course list holds the raw name:
  \<open>from_dict\<close> takes the list from the file as it is. The stripped name is new, it is
  appended, and \<open>remove_course\<close> with the raw name then removes the old entry and
  returns \<open>True\<close>.
\<close>

theorem raw_course_counterexample:
  "from_dict clock0 raw_course_dict =
     Inr (alice\<lparr>courses := ['' Math '']\<rparr>)
   \<and> str_strip '' Math '' \<noteq> '' Math ''
   \<and> str_strip '' Math '' \<notin> set (courses (alice\<lparr>courses := ['' Math '']\<rparr>))
   \<and> add_course (alice\<lparr>courses := ['' Math '']\<rparr>) '' Math '' =
       (alice\<lparr>courses := ['' Math '', ''Math'']\<rparr>, Inr True)
   \<and> remove_course (alice\<lparr>courses := ['' Math '', ''Math'']\<rparr>) '' Math '' =
       (alice\<lparr>courses := [''Math'']\<rparr>, True)"
  by code_simp

subsection \<open>Construction and the fields that an update leaves alone\<close>

lemma res_bind_Inr: "res_bind r f = Inr y \<Longrightarrow> \<exists>x. r = Inr x \<and> f x = Inr y"
  by (cases r) (auto simp: res_bind_def)

lemma init_student_fields:
  assumes "init_student now sid fname lname em ph dob addr maj g = Inr s"
  shows "validate_student_id sid = Inr (student_id s)"
    and "validate_name fname ''First name'' = Inr (first_name s)"
    and "validate_name lname ''Last name'' = Inr (last_name s)"
    and "validate_email em = Inr (email s)"
    and "validate_phone ph = Inr (phone s)"
    and "validate_date dob = Inr (date_of_birth s)"
    and "validate_gpa g = Inr (gpa s)"
    and "address s = addr" and "major s = maj"
    and "enrollment_date s = strftime_date now" and "courses s = []" and "grades s = []"
  using assms unfolding init_student_def
  by (auto dest!: res_bind_Inr)

lemma validate_gpa_Inr: "validate_gpa g = Inr g' \<Longrightarrow> g' = g"
  by (auto simp: validate_gpa_def split: if_splits)

lemma setattr_frame:
  "student_id (setattr_student s f v) = student_id s"
  "date_of_birth (setattr_student s f v) = date_of_birth s"
  "gpa (setattr_student s f v) = gpa s"
  "enrollment_date (setattr_student s f v) = enrollment_date s"
  "courses (setattr_student s f v) = courses s"
  "grades (setattr_student s f v) = grades s"
  by (simp_all add: setattr_student_def)

lemma update_info_frame:
  "update_info s kwargs = (s', r) \<Longrightarrow>
     student_id s' = student_id s \<and> date_of_birth s' = date_of_birth s \<and> gpa s' = gpa s \<and>
     enrollment_date s' = enrollment_date s \<and> courses s' = courses s \<and> grades s' = grades s"
proof (induction s kwargs rule: update_info.induct)
  case (1 s)
  then show ?case by simp
next
  case (2 s field val kwargs)
  show ?case
  proof (cases "field \<in> set updatable_fields")
    case False
    with 2 show ?thesis by simp
  next
    case True
    note upd = this
    show ?thesis
    proof (cases "field \<in> set [''first_name'', ''last_name'']")
      case True
      show ?thesis
      proof (cases "validate_name val (str_title (replace_underscores field))")
        case (Inl e)
        with 2 upd True show ?thesis by simp
      next
        case (Inr v)
        from "2.prems" upd True Inr have "update_info (setattr_student s field v) kwargs = (s', r)"
          by simp
        from "2.IH"(1)[OF upd True Inr this] show ?thesis by (simp add: setattr_frame)
      qed
    next
      case False
      note nf = this
      show ?thesis
      proof (cases "field \<in> set [''email'', ''phone'']")
        case True
        show ?thesis
        proof (cases "if field = ''email'' then validate_email val else validate_phone val")
          case (Inl e)
          with 2 upd nf True show ?thesis by simp
        next
          case (Inr v)
          from "2.prems" upd nf True Inr
          have "update_info (setattr_student s field v) kwargs = (s', r)"
            by simp
          from "2.IH"(2)[OF upd nf True Inr this] show ?thesis by (simp add: setattr_frame)
        qed
      next
        case False
        with "2.prems" upd nf
        have "update_info (setattr_student s field (str_strip val)) kwargs = (s', r)"
          by simp
        from "2.IH"(3)[OF upd nf False this] show ?thesis by (simp add: setattr_frame)
      qed
    qed
  qed
qed

lemma update_info_fst_frame:
  "gpa (fst (update_info s kwargs)) = gpa s"
  "grades (fst (update_info s kwargs)) = grades s"
  "courses (fst (update_info s kwargs)) = courses s"
  "student_id (fst (update_info s kwargs)) = student_id s"
  using update_info_frame [of s kwargs "fst (update_info s kwargs)" "snd (update_info s kwargs)"]
  by simp_all

lemma add_course_frame:
  "gpa (fst (add_course s n)) = gpa s"
  "grades (fst (add_course s n)) = grades s"
  "set (courses s) \<subseteq> set (courses (fst (add_course s n)))"
  by (auto simp: add_course_def Let_def)

subsection \<open>The gpa and the grades\<close>

lemma add_grade_gpa:
  "grades (fst (add_grade s n g)) = grades s \<and> gpa (fst (add_grade s n g)) = gpa s
   \<or> grades (fst (add_grade s n g)) \<noteq> [] \<and>
     gpa (fst (add_grade s n g)) = mean (dict_values (grades (fst (add_grade s n g))))"
  by (simp add: add_grade_def update_gpa_def dict_set_not_Nil mean_def dict_values_def)

lemma apply_op_gpa:
  assumes "\<not> is_removal op"
    and "(grades s \<noteq> [] \<longrightarrow> gpa s = mean (dict_values (grades s))) \<and> (grades s = [] \<longrightarrow> gpa s = g)"
  shows "(grades (apply_op s op) \<noteq> [] \<longrightarrow> gpa (apply_op s op) = mean (dict_values (grades (apply_op s op))))
       \<and> (grades (apply_op s op) = [] \<longrightarrow> gpa (apply_op s op) = g)"
proof (cases op)
  case (AddCourse n)
  with assms(2) show ?thesis by (simp add: add_course_frame)
next
  case (RemoveCourse n)
  with assms(1) show ?thesis by simp
next
  case (AddGrade n x)
  with assms(2) add_grade_gpa [of s n x] show ?thesis by auto
next
  case (UpdateInfo kwargs)
  with assms(2) show ?thesis by (simp add: update_info_fst_frame)
qed

lemma run_ops_gpa:
  "\<forall>op \<in> set ops. \<not> is_removal op \<Longrightarrow>
   (grades s \<noteq> [] \<longrightarrow> gpa s = mean (dict_values (grades s))) \<and> (grades s = [] \<longrightarrow> gpa s = g) \<Longrightarrow>
   (grades (run_ops s ops) \<noteq> [] \<longrightarrow> gpa (run_ops s ops) = mean (dict_values (grades (run_ops s ops))))
   \<and> (grades (run_ops s ops) = [] \<longrightarrow> gpa (run_ops s ops) = g)"
proof (induction ops arbitrary: s)
  case Nil
  then show ?case by simp
next
  case (Cons op ops)
  from Cons.prems(1) have a: "\<not> is_removal op" and b: "\<forall>op \<in> set ops. \<not> is_removal op"
    by simp_all
  from Cons.IH [OF b apply_op_gpa [OF a Cons.prems(2)]] show ?case by simp
qed

text \<open>
  Claim C1, amended. Take a student built by the constructor with the gpa \<open>g\<close> and apply
  any sequence of \<open>add_course\<close>, \<open>add_grade\<close> and \<open>update_info\<close> calls, whether they
  succeed or raise. Then the gpa is the arithmetic mean of the recorded grades whenever
  there is a grade, and it is still the \<open>g\<close> passed to the constructor while there is
  none. Sequences with \<open>remove_course\<close> are left out.
\<close>

theorem gpa_is_mean_without_removal:
  assumes "init_student now sid fname lname em ph dob addr maj g = Inr s0"
    and "\<forall>op \<in> set ops. \<not> is_removal op"
  shows "(grades (run_ops s0 ops) \<noteq> [] \<longrightarrow>
            gpa (run_ops s0 ops) = mean (dict_values (grades (run_ops s0 ops))))
       \<and> (grades (run_ops s0 ops) = [] \<longrightarrow> gpa (run_ops s0 ops) = g)"
proof -
  from init_student_fields(7,12) [OF assms(1)] validate_gpa_Inr [of g "gpa s0"]
  have "(grades s0 \<noteq> [] \<longrightarrow> gpa s0 = mean (dict_values (grades s0))) \<and> (grades s0 = [] \<longrightarrow> gpa s0 = g)"
    by simp
  from run_ops_gpa [OF assms(2) this] show ?thesis .
qed

theorem gpa_is_mean_without_removal_witness:
  "init_student clock0 ''stu001'' ''alice'' ''johnson'' ''Alice@Uni.edu'' ''5551234567''
      ''2001-03-15'' [] [] (Finite 3.5) = Inr fresh_student
   \<and> grades (run_ops fresh_student study_ops) = [(''Algorithms'', Finite 3.8), (''Databases'', Finite 3)]
   \<and> gpa (run_ops fresh_student study_ops) =
       mean (dict_values (grades (run_ops fresh_student study_ops)))
   \<and> gpa (run_ops fresh_student []) = Finite 3.5"
proof -
  have h1: "init_student clock0 ''stu001'' ''alice'' ''johnson'' ''Alice@Uni.edu'' ''5551234567''
      ''2001-03-15'' [] [] (Finite 3.5) = Inr fresh_student"
    by code_simp
  have h2: "\<forall>op \<in> set study_ops. \<not> is_removal op"
    by (simp add: study_ops_def)
  have h3: "\<forall>op \<in> set ([] :: student_op list). \<not> is_removal op"
    by simp
  have g: "grades (run_ops fresh_student study_ops) = [(''Algorithms'', Finite 3.8), (''Databases'', Finite 3)]"
    by code_simp
  have g0: "grades (run_ops fresh_student []) = []"
    by (simp add: fresh_student_def)
  from gpa_is_mean_without_removal [OF h1 h2] g
  have m: "gpa (run_ops fresh_student study_ops) =
       mean (dict_values (grades (run_ops fresh_student study_ops)))"
    by simp
  from gpa_is_mean_without_removal [OF h1 h3] g0
  have e: "gpa (run_ops fresh_student []) = Finite 3.5"
    by blast
  from h1 g m e show ?thesis by blast
qed

text \<open>
  Claim C1 as it was stated fails right after construction: the constructor keeps the
  gpa it is given, here 3.5, while the grades are empty.
\<close>

theorem external_gpa_counterexample:
  "init_student clock0 ''stu001'' ''alice'' ''johnson'' ''Alice@Uni.edu'' ''5551234567''
      ''2001-03-15'' [] [] (Finite 3.5) = Inr fresh_student
   \<and> grades fresh_student = [] \<and> gpa fresh_student = Finite 3.5 \<and> gpa fresh_student \<noteq> Finite 0"
  by code_simp

subsection \<open>Grades belong to courses\<close>

lemma from_dict_courses_grades:
  assumes "from_dict now d = Inr s"
  shows "courses s = get_or (d_courses d) []" and "grades s = get_or (d_grades d) []"
  using assms unfolding from_dict_def
  by (auto dest!: res_bind_Inr)

lemma remove1_keeps: "x \<in> set xs \<Longrightarrow> x \<noteq> n \<Longrightarrow> x \<in> set (remove1 n xs)"
  by (induction xs) auto

lemma apply_op_grades_in_courses:
  assumes "grades_in_courses s"
  shows "grades_in_courses (apply_op s op)"
proof (cases op)
  case (AddCourse n)
  with assms add_course_frame(2,3) [of s n] show ?thesis
    by (auto simp: grades_in_courses_def)
next
  case (RemoveCourse n)
  show ?thesis
  proof (cases "n \<in> set (courses s)")
    case False
    with RemoveCourse assms show ?thesis by (simp add: remove_course_def)
  next
    case True
    have keys: "set (dict_keys (grades (fst (remove_course s n)))) \<subseteq> set (dict_keys (grades s)) - {n}"
      using True by (auto simp: remove_course_def keys_dict_del)
    have crs: "courses (fst (remove_course s n)) = remove1 n (courses s)"
      using True by (simp add: remove_course_def)
    have rest: "set (courses s) - {n} \<subseteq> set (remove1 n (courses s))"
      by (blast intro: remove1_keeps)
    from assms have "set (dict_keys (grades s)) - {n} \<subseteq> set (courses s) - {n}"
      by (auto simp: grades_in_courses_def)
    with keys rest have "set (dict_keys (grades (fst (remove_course s n)))) \<subseteq> set (remove1 n (courses s))"
      by blast
    with crs RemoveCourse show ?thesis by (simp add: grades_in_courses_def)
  qed
next
  case (AddGrade n x)
  with assms show ?thesis
    by (auto simp: grades_in_courses_def add_grade_def update_gpa_def keys_dict_set dict_set_not_Nil)
next
  case (UpdateInfo kwargs)
  with assms show ?thesis
    by (simp add: grades_in_courses_def update_info_fst_frame)
qed

lemma run_ops_grades_in_courses:
  "grades_in_courses s \<Longrightarrow> grades_in_courses (run_ops s ops)"
  by (induction ops arbitrary: s) (simp_all add: apply_op_grades_in_courses)

text \<open>
  Claim C2, amended. For a student built by the constructor and mutated by any sequence
  of \<open>add_course\<close>, \<open>remove_course\<close>, \<open>add_grade\<close> and \<open>update_info\<close> calls, every key
  of the grades is among the courses, and each of these operations keeps the property;
  \<open>remove_course\<close>, when it removes the course, removes its grade with it.
  \<open>from_dict\<close> copies courses and grades from the dictionary unchecked: its result has
  the property exactly when the dictionary has it.
\<close>

theorem grades_keys_in_courses:
  "(init_student now sid fname lname em ph dob addr maj g = Inr s0 \<longrightarrow>
      grades_in_courses (run_ops s0 ops))
   \<and> (grades_in_courses s \<longrightarrow> grades_in_courses (apply_op s op))
   \<and> (remove_course s2 c = (s', True) \<longrightarrow>
        c \<notin> set (dict_keys (grades s')) \<and> courses s' = remove1 c (courses s2))
   \<and> (from_dict now d = Inr s1 \<longrightarrow>
        grades_in_courses s1 =
          (set (dict_keys (get_or (d_grades d) [])) \<subseteq> set (get_or (d_courses d) [])))"
proof (intro conjI impI)
  assume "init_student now sid fname lname em ph dob addr maj g = Inr s0"
  from init_student_fields(12) [OF this] have "grades_in_courses s0"
    by (simp add: grades_in_courses_def dict_keys_def)
  then show "grades_in_courses (run_ops s0 ops)" by (rule run_ops_grades_in_courses)
next
  assume "grades_in_courses s"
  then show "grades_in_courses (apply_op s op)" by (rule apply_op_grades_in_courses)
next
  assume "remove_course s2 c = (s', True)"
  then show "c \<notin> set (dict_keys (grades s'))"
    by (auto simp: remove_course_def keys_dict_del split: if_splits)
next
  assume "remove_course s2 c = (s', True)"
  then show "courses s' = remove1 c (courses s2)"
    by (auto simp: remove_course_def split: if_splits)
next
  assume "from_dict now d = Inr s1"
  from from_dict_courses_grades [OF this]
  show "grades_in_courses s1 =
          (set (dict_keys (get_or (d_grades d) [])) \<subseteq> set (get_or (d_courses d) []))"
    by (simp add: grades_in_courses_def)
qed

theorem grades_keys_in_courses_witness:
  "init_student clock0 ''stu001'' ''alice'' ''johnson'' ''Alice@Uni.edu'' ''5551234567''
      ''2001-03-15'' [] [] (Finite 3.5) = Inr fresh_student
   \<and> grades_in_courses (run_ops fresh_student (study_ops @ [RemoveCourse ''Algorithms'']))
   \<and> grades_in_courses alice
   \<and> grades_in_courses (apply_op alice (AddGrade ''Algorithms'' (Finite 3.8)))
   \<and> remove_course (alice\<lparr>gpa := Finite 3.8, grades := [(''Algorithms'', Finite 3.8)]\<rparr>) ''Algorithms'' =
       (alice\<lparr>gpa := Finite 3.8, courses := [], grades := []\<rparr>, True)
   \<and> ''Algorithms'' \<notin> set (dict_keys (grades (alice\<lparr>gpa := Finite 3.8, courses := [], grades := []\<rparr>)))
   \<and> from_dict clock0 raw_course_dict = Inr (alice\<lparr>courses := ['' Math '']\<rparr>)
   \<and> grades_in_courses (alice\<lparr>courses := ['' Math '']\<rparr>)"
proof -
  have h1: "init_student clock0 ''stu001'' ''alice'' ''johnson'' ''Alice@Uni.edu'' ''5551234567''
      ''2001-03-15'' [] [] (Finite 3.5) = Inr fresh_student"
    by code_simp
  have h2: "grades_in_courses alice"
    by (simp add: grades_in_courses_def alice_def dict_keys_def)
  have h3: "remove_course (alice\<lparr>gpa := Finite 3.8, grades := [(''Algorithms'', Finite 3.8)]\<rparr>) ''Algorithms'' =
       (alice\<lparr>gpa := Finite 3.8, courses := [], grades := []\<rparr>, True)"
    by code_simp
  have h4: "from_dict clock0 raw_course_dict = Inr (alice\<lparr>courses := ['' Math '']\<rparr>)"
    by code_simp
  have h5: "set (dict_keys (get_or (d_grades raw_course_dict) []))
              \<subseteq> set (get_or (d_courses raw_course_dict) [])"
    by (simp add: raw_course_dict_def get_or_def dict_keys_def)
  note t = grades_keys_in_courses
    [where now = clock0 and sid = "''stu001''" and fname = "''alice''" and lname = "''johnson''"
       and em = "''Alice@Uni.edu''" and ph = "''5551234567''" and dob = "''2001-03-15''"
       and addr = "[]" and maj = "[]" and g = "Finite 3.5" and ?s0.0 = fresh_student
       and ops = "study_ops @ [RemoveCourse ''Algorithms'']"
       and s = alice and op = "AddGrade ''Algorithms'' (Finite 3.8)"
       and ?s2.0 = "alice\<lparr>gpa := Finite 3.8, grades := [(''Algorithms'', Finite 3.8)]\<rparr>" and c = "''Algorithms''"
       and s' = "alice\<lparr>gpa := Finite 3.8, courses := [], grades := []\<rparr>"
       and d = raw_course_dict and ?s1.0 = "alice\<lparr>courses := ['' Math '']\<rparr>"]
  from t h1 h2 h3 h4 h5 show ?thesis by blast
qed

text \<open>
  Claim C2 as it was stated fails for \<open>from_dict\<close>: a stored dictionary with a grade
  for a course that is not in its course list loads as it is.
\<close>

theorem orphan_grade_counterexample:
  "from_dict clock0 orphan_grade_dict = Inr (alice\<lparr>gpa := Finite 3, courses := [], grades := [(''Math'', Finite 3)]\<rparr>)
   \<and> ''Math'' \<in> set (dict_keys (grades (alice\<lparr>gpa := Finite 3, courses := [], grades := [(''Math'', Finite 3)]\<rparr>)))
   \<and> ''Math'' \<notin> set (courses (alice\<lparr>gpa := Finite 3, courses := [], grades := [(''Math'', Finite 3)]\<rparr>))"
  by code_simp

subsection \<open>Updating a student\<close>









lemma create_backup_db_file: "db_file (create_backup now bf st) = db_file st"
  by (simp add: create_backup_def split: option.splits io_fault.splits)







subsection \<open>Backups and failing writes\<close>

lemma create_backup_copy:
  "db_file st = Some content \<Longrightarrow>
     map_of (backups (create_backup now NoFault st)) (backup_name now) = Some content"
  by (simp add: create_backup_def map_of_dict_set)

lemma create_backup_others:
  "name \<noteq> backup_name now \<Longrightarrow>
     map_of (backups (create_backup now bf st)) name = map_of (backups st) name"
  by (simp add: create_backup_def map_of_dict_set split: option.splits io_fault.splits)

text \<open>
  Claim C9, as the code has it.  \<open>_save_data\<close>, through which \<open>add_student\<close>,
  \<open>update_student\<close> and \<open>delete_student\<close> write, first copies the current file
  verbatim into the backup named after the current second and leaves the other
  backups alone; a failing backup does not stop the write, which succeeds whenever the
  write itself does.  A write that fails
  is reported by the result \<open>False\<close>; the prior file is intact only when the file
  could not be opened: it is opened in mode \<open>'w'\<close>, which truncates it, so a failure
  while the JSON text is written leaves a partial file, which loads as the empty
  collection.
\<close>

theorem save_data_backup_and_faults:
  "(db_file st = Some content \<and> backup_fault flt = NoFault \<longrightarrow>
      map_of (backups (fst (save_data now flt st data))) (backup_name now) = Some content)
   \<and> (name \<noteq> backup_name now \<longrightarrow>
        map_of (backups (fst (save_data now flt st data))) name = map_of (backups st) name)
   \<and> (save_fault flt = NoFault \<longrightarrow>
        snd (save_data now flt st data) = True
        \<and> db_file (fst (save_data now flt st data)) = Some (Json data))
   \<and> (save_fault flt = OpenFails \<longrightarrow>
        snd (save_data now flt st data) = False
        \<and> db_file (fst (save_data now flt st data)) = db_file st)
   \<and> (save_fault flt = WriteFails n \<longrightarrow>
        snd (save_data now flt st data) = False
        \<and> db_file (fst (save_data now flt st data)) = Some (Truncated data n)
        \<and> load_data (fst (save_data now flt st data)) = [])
   \<and> (id_exists (load_data st) (student_id s) = Inr False \<longrightarrow>
        add_student now flt st s =
          (fst (save_data now flt st (load_data st @ [to_dict s])),
           Inr (snd (save_data now flt st (load_data st @ [to_dict s])))))
   \<and> (replace_first (load_data st) (student_id s) (to_dict s) = Inr (Some data') \<longrightarrow>
        update_student now flt st s =
          (fst (save_data now flt st data'), Inr (snd (save_data now flt st data'))))
   \<and> (delete_first (load_data st) (str_upper sid) = Inr (Some data') \<longrightarrow>
        delete_student now flt st sid =
          (fst (save_data now flt st data'), Inr (snd (save_data now flt st data'))))"
proof (intro conjI impI)
  assume "db_file st = Some content \<and> backup_fault flt = NoFault"
  then show "map_of (backups (fst (save_data now flt st data))) (backup_name now) = Some content"
    using create_backup_copy [of st content now]
    by (cases "save_fault flt") (simp_all add: save_data_def Let_def)
next
  assume "name \<noteq> backup_name now"
  then show "map_of (backups (fst (save_data now flt st data))) name = map_of (backups st) name"
    using create_backup_others [of name now "backup_fault flt" st]
    by (cases "save_fault flt") (simp_all add: save_data_def Let_def)
qed (simp_all add: save_data_def Let_def create_backup_db_file load_data_def
       add_student_def update_student_def delete_student_def split: prod.splits)

theorem save_data_backup_and_faults_witness:
  "db_file alice_storage = Some (Json [to_dict alice]) \<and> backup_fault no_faults = NoFault
   \<and> map_of (backups (fst (save_data clock0 no_faults alice_storage [])))
        ''backups/students_backup_20261104_093000.json'' = Some (Json [to_dict alice])
   \<and> ''backups/students_backup_20261103_180000.json'' \<noteq> backup_name clock0
   \<and> map_of (backups (fst (save_data clock0 no_faults alice_storage [])))
        ''backups/students_backup_20261103_180000.json'' = None
   \<and> save_fault no_faults = NoFault
   \<and> db_file (fst (save_data clock0 no_faults alice_storage [])) = Some (Json [])
   \<and> save_fault open_fails = OpenFails
   \<and> snd (save_data clock0 open_fails alice_storage []) = False
   \<and> db_file (fst (save_data clock0 open_fails alice_storage [])) = db_file alice_storage
   \<and> save_fault write_fails = WriteFails 0
   \<and> load_data (fst (save_data clock0 write_fails alice_storage [to_dict bob])) = []
   \<and> id_exists (load_data alice_storage) (student_id bob) = Inr False
   \<and> add_student clock0 no_faults alice_storage bob =
       (fst (save_data clock0 no_faults alice_storage (load_data alice_storage @ [to_dict bob])),
        Inr (snd (save_data clock0 no_faults alice_storage (load_data alice_storage @ [to_dict bob]))))
   \<and> replace_first (load_data alice_storage) (student_id alice) (to_dict alice) = Inr (Some [to_dict alice])
   \<and> update_student clock0 no_faults alice_storage alice =
       (fst (save_data clock0 no_faults alice_storage [to_dict alice]),
        Inr (snd (save_data clock0 no_faults alice_storage [to_dict alice])))
   \<and> delete_first (load_data alice_storage) (str_upper ''stu001'') = Inr (Some [])
   \<and> delete_student clock0 no_faults alice_storage ''stu001'' =
       (fst (save_data clock0 no_faults alice_storage []),
        Inr (snd (save_data clock0 no_faults alice_storage [])))"
proof -
  have n: "backup_name clock0 = ''backups/students_backup_20261104_093000.json''"
    by code_simp
  have h1: "db_file alice_storage = Some (Json [to_dict alice]) \<and> backup_fault no_faults = NoFault"
    by (simp add: alice_storage_def no_faults_def)
  have h2: "save_fault no_faults = NoFault" by (simp add: no_faults_def)
  have h3: "save_fault open_fails = OpenFails" by (simp add: open_fails_def)
  have h4: "save_fault write_fails = WriteFails 0" by (simp add: write_fails_def)
  have h5: "id_exists (load_data alice_storage) (student_id bob) = Inr False" by code_simp
  have h6: "replace_first (load_data alice_storage) (student_id alice) (to_dict alice) = Inr (Some [to_dict alice])"
    by code_simp
  have h7: "delete_first (load_data alice_storage) (str_upper ''stu001'') = Inr (Some [])"
    by code_simp
  note a = save_data_backup_and_faults
    [where st = alice_storage and content = "Json [to_dict alice]" and flt = no_faults
       and now = clock0 and data = "[]" and s = bob and sid = "''stu001''" and data' = "[]"
       and name = "''backups/students_backup_20261103_180000.json''"]
  note b = save_data_backup_and_faults
    [where st = alice_storage and flt = open_fails and now = clock0 and data = "[]"]
  note c = save_data_backup_and_faults
    [where st = alice_storage and flt = write_fails and now = clock0 and data = "[to_dict bob]"
       and n = 0]
  note d = save_data_backup_and_faults
    [where st = alice_storage and flt = no_faults and now = clock0 and s = alice
       and data' = "[to_dict alice]"]
  from a h1 n have c1: "map_of (backups (fst (save_data clock0 no_faults alice_storage [])))
        ''backups/students_backup_20261104_093000.json'' = Some (Json [to_dict alice])"
    by simp
  have h0: "''backups/students_backup_20261103_180000.json'' \<noteq> backup_name clock0"
    unfolding n by simp
  have b0: "map_of (backups alice_storage) ''backups/students_backup_20261103_180000.json'' = None"
    by (simp add: alice_storage_def)
  from a h0 b0 have c0: "map_of (backups (fst (save_data clock0 no_faults alice_storage [])))
        ''backups/students_backup_20261103_180000.json'' = None"
    by simp
  from a h2 have c2: "db_file (fst (save_data clock0 no_faults alice_storage [])) = Some (Json [])"
    by blast
  from b h3 have c3: "snd (save_data clock0 open_fails alice_storage []) = False
     \<and> db_file (fst (save_data clock0 open_fails alice_storage [])) = db_file alice_storage"
    by blast
  from c h4 have c4: "load_data (fst (save_data clock0 write_fails alice_storage [to_dict bob])) = []"
    by blast
  from a h5 have c5: "add_student clock0 no_faults alice_storage bob =
       (fst (save_data clock0 no_faults alice_storage (load_data alice_storage @ [to_dict bob])),
        Inr (snd (save_data clock0 no_faults alice_storage (load_data alice_storage @ [to_dict bob]))))"
    by blast
  from d h6 have c6: "update_student clock0 no_faults alice_storage alice =
       (fst (save_data clock0 no_faults alice_storage [to_dict alice]),
        Inr (snd (save_data clock0 no_faults alice_storage [to_dict alice])))"
    by blast
  from a h7 have c7: "delete_student clock0 no_faults alice_storage ''stu001'' =
       (fst (save_data clock0 no_faults alice_storage []),
        Inr (snd (save_data clock0 no_faults alice_storage [])))"
    by blast
  from h1 c1 h0 c0 h2 c2 h3 c3 h4 c4 h5 c5 h6 c6 h7 c7 show ?thesis by blast
qed

text \<open>
  The all-or-nothing rewrite of claim C9 fails: adding a student while the write is
  interrupted reports failure, and the stored collection, which held one student,
  is lost (the file is partial and loads as the empty list).
\<close>

theorem failed_write_counterexample:
  "add_student clock0 write_fails alice_storage bob =
     (\<lparr>db_file = Some (Truncated [to_dict alice, to_dict bob] 0),
       backups = [(''backups/students_backup_20261104_093000.json'', Json [to_dict alice])]\<rparr>,
      Inr False)
   \<and> load_data alice_storage = [to_dict alice]
   \<and> load_data \<lparr>db_file = Some (Truncated [to_dict alice, to_dict bob] 0),
       backups = [(''backups/students_backup_20261104_093000.json'', Json [to_dict alice])]\<rparr> = []
   \<and> get_all_students clock0 \<lparr>db_file = Some (Truncated [to_dict alice, to_dict bob] 0),
       backups = [(''backups/students_backup_20261104_093000.json'', Json [to_dict alice])]\<rparr> = []"
  by code_simp

subsection \<open>Search\<close>

lemma fl_not_less:
  "a \<noteq> NaN \<Longrightarrow> b \<noteq> NaN \<Longrightarrow> (\<not> fl_less a b) = fl_le b a"
  by (cases a; cases b) (auto simp: fl_le_def)

lemma matches_iff:
  "(matches env now s criteria = Inr True) =
     (\<forall>kv \<in> set criteria. check_criterion env now s kv = Inr True)"
  by (induction criteria) (auto split: sum.splits bool.splits)

lemma matches_total:
  "\<forall>kv \<in> set criteria. \<exists>b. check_criterion env now s kv = Inr b \<Longrightarrow>
     \<exists>b. matches env now s criteria = Inr b"
  by (induction criteria) (auto split: sum.splits bool.splits)

lemma search_loop_filter:
  "search_loop env now students criteria = Inr result \<Longrightarrow>
     result = filter (\<lambda>s. matches env now s criteria = Inr True) students"
  by (induction students arbitrary: result) (auto split: sum.splits if_splits)

lemma search_loop_total:
  "\<forall>s \<in> set students. \<exists>b. matches env now s criteria = Inr b \<Longrightarrow>
     \<exists>result. search_loop env now students criteria = Inr result"
  by (induction students) (auto split: sum.splits)

lemma check_gpa_min:
  "check_criterion env now s (''gpa_min'', PNum v) = Inr (\<not> fl_less (gpa s) v)"
  by (simp add: check_criterion_def py_float_def res_bind_def)

lemma check_gpa_max:
  "check_criterion env now s (''gpa_max'', PNum v) = Inr (\<not> fl_less v (gpa s))"
  by (simp add: check_criterion_def py_float_def res_bind_def)

lemma getattr_unknown:
  "unknown_key env key \<Longrightarrow> getattr_student env s key = None"
  by (simp add: unknown_key_def getattr_student_def field_names_def)

lemma check_unknown:
  "unknown_key env key \<Longrightarrow> check_criterion env now s (key, val) = Inr True"
  using getattr_unknown [of env key s]
  by (simp add: check_criterion_def unknown_key_def search_keys_def)

lemma matches_drop_unknown:
  "matches env now s (filter (\<lambda>kv. \<not> unknown_key env (fst kv)) criteria) =
     matches env now s criteria"
proof (induction criteria)
  case Nil
  show ?case by simp
next
  case (Cons kv criteria)
  show ?case
  proof (cases "unknown_key env (fst kv)")
    case True
    with check_unknown [of env "fst kv" now s "snd kv"] Cons show ?thesis by simp
  next
    case False
    with Cons show ?thesis by (simp split: sum.splits bool.splits)
  qed
qed

lemma search_loop_Nil: "search_loop env now students [] = Inr students"
  by (induction students) simp_all

lemma search_loop_drop_unknown:
  "search_loop env now students (filter (\<lambda>kv. \<not> unknown_key env (fst kv)) criteria) =
     search_loop env now students criteria"
  by (induction students) (simp_all add: matches_drop_unknown split: sum.splits)

lemma method_not_field:
  "key \<in> set student_methods \<Longrightarrow> key \<notin> set field_names"
  unfolding student_methods_def field_names_def by auto

lemma getattr_method:
  assumes "key \<in> set student_methods"
  shows "getattr_student env s key = Some AOther"
  using assms method_not_field [OF assms]
  by (simp add: getattr_student_def field_names_def)

lemma method_not_search_key:
  "key \<in> set student_methods \<Longrightarrow> key \<notin> set search_keys"
  unfolding student_methods_def search_keys_def by auto

lemma check_method:
  assumes "key \<in> set student_methods"
  shows "check_criterion env now s (key, val) = Inr False"
  using getattr_method [OF assms, of env s] method_not_search_key [OF assms]
  by (simp add: check_criterion_def search_keys_def)

text \<open>
  Claim C6, amended. When \<open>search_students\<close> returns, it returns the loaded students
  that pass every criterion, in their order, and it returns whenever no criterion
  raises. For a student whose gpa is a number and a bound that is a number,
  \<open>gpa_min\<close> and \<open>gpa_max\<close> are inclusive bounds. A key that is no search key and
  names no attribute of a student passes every student, and dropping such keys from
  the criteria does not change the result. A key that names a method of \<open>Student\<close>
  is compared like a field and fails for every student. Without criteria every loaded
  student is returned.
\<close>

theorem search_students_spec:
  "(search_students env now st criteria = Inr result \<longrightarrow>
      result = filter (\<lambda>s. \<forall>kv \<in> set criteria. check_criterion env now s kv = Inr True)
                 (get_all_students now st))
   \<and> ((\<forall>s \<in> set (get_all_students now st). \<forall>kv \<in> set criteria.
          \<exists>b. check_criterion env now s kv = Inr b) \<longrightarrow>
        (\<exists>result. search_students env now st criteria = Inr result))
   \<and> (gpa s \<noteq> NaN \<and> v \<noteq> NaN \<longrightarrow>
        check_criterion env now s (''gpa_min'', PNum v) = Inr (fl_le v (gpa s))
        \<and> check_criterion env now s (''gpa_max'', PNum v) = Inr (fl_le (gpa s) v))
   \<and> (unknown_key env key \<longrightarrow> check_criterion env now s (key, val) = Inr True)
   \<and> search_students env now st (filter (\<lambda>kv. \<not> unknown_key env (fst kv)) criteria) =
       search_students env now st criteria
   \<and> (key \<in> set student_methods \<longrightarrow> check_criterion env now s (key, val) = Inr False)
   \<and> search_students env now st [] = Inr (get_all_students now st)"
proof (intro conjI impI)
  assume "search_students env now st criteria = Inr result"
  from search_loop_filter [OF this [unfolded search_students_def]]
  show "result = filter (\<lambda>s. \<forall>kv \<in> set criteria. check_criterion env now s kv = Inr True)
                 (get_all_students now st)"
    by (simp add: matches_iff)
next
  assume "\<forall>s \<in> set (get_all_students now st). \<forall>kv \<in> set criteria.
          \<exists>b. check_criterion env now s kv = Inr b"
  then have "\<forall>s \<in> set (get_all_students now st). \<exists>b. matches env now s criteria = Inr b"
    by (blast intro: matches_total)
  from search_loop_total [OF this]
  show "\<exists>result. search_students env now st criteria = Inr result"
    by (simp add: search_students_def)
next
  assume "gpa s \<noteq> NaN \<and> v \<noteq> NaN"
  then show "check_criterion env now s (''gpa_min'', PNum v) = Inr (fl_le v (gpa s))"
    by (simp add: check_gpa_min fl_not_less)
next
  assume "gpa s \<noteq> NaN \<and> v \<noteq> NaN"
  then show "check_criterion env now s (''gpa_max'', PNum v) = Inr (fl_le (gpa s) v)"
    by (simp add: check_gpa_max fl_not_less)
next
  assume "unknown_key env key"
  then show "check_criterion env now s (key, val) = Inr True" by (rule check_unknown)
next
  show "search_students env now st (filter (\<lambda>kv. \<not> unknown_key env (fst kv)) criteria) =
       search_students env now st criteria"
    by (simp add: search_students_def search_loop_drop_unknown)
next
  assume "key \<in> set student_methods"
  then show "check_criterion env now s (key, val) = Inr False" by (rule check_method)
next
  show "search_students env now st [] = Inr (get_all_students now st)"
    by (simp add: search_students_def search_loop_Nil)
qed

lemma demo_loaded:
  "get_all_students clock0 demo_storage = [demo_alice, demo_bob, demo_carol]"
  by code_simp

lemma demo_gpas:
  "gpa demo_alice = Finite 3.8" "gpa demo_bob = Finite 3.6" "gpa demo_carol = Finite 3.9"
  by (simp_all add: demo_alice_def demo_bob_def demo_carol_def)

theorem search_students_spec_witness:
  "search_students plain_env clock0 demo_storage [(''gpa_min'', PNum (Finite 3.7))] =
     Inr [demo_alice, demo_carol]
   \<and> [demo_alice, demo_carol] =
       filter (\<lambda>s. \<forall>kv \<in> set [(''gpa_min'', PNum (Finite 3.7))].
                    check_criterion plain_env clock0 s kv = Inr True)
         (get_all_students clock0 demo_storage)
   \<and> check_criterion plain_env clock0 demo_alice (''gpa_min'', PNum (Finite 3.7)) = Inr True
   \<and> check_criterion plain_env clock0 demo_bob (''gpa_min'', PNum (Finite 3.7)) = Inr False
   \<and> check_criterion plain_env clock0 demo_carol (''gpa_min'', PNum (Finite 3.7)) = Inr True
   \<and> (\<exists>result. search_students plain_env clock0 demo_storage
                  [(''gpa_min'', PNum (Finite 3.7))] = Inr result)
   \<and> gpa demo_bob \<noteq> NaN \<and> Finite 3.6 \<noteq> NaN
   \<and> check_criterion plain_env clock0 demo_bob (''gpa_min'', PNum (Finite 3.6)) = Inr True
   \<and> check_criterion plain_env clock0 demo_bob (''gpa_max'', PNum (Finite 3.6)) = Inr True
   \<and> unknown_key plain_env ''nickname''
   \<and> check_criterion plain_env clock0 demo_bob (''nickname'', PStr ''Al'') = Inr True
   \<and> search_students plain_env clock0 demo_storage
        [(''nickname'', PStr ''Al''), (''gpa_min'', PNum (Finite 3.7))] =
       Inr [demo_alice, demo_carol]
   \<and> ''to_dict'' \<in> set student_methods
   \<and> check_criterion plain_env clock0 demo_bob (''to_dict'', PStr ''Al'') = Inr False
   \<and> search_students plain_env clock0 demo_storage [] = Inr [demo_alice, demo_bob, demo_carol]"
proof -
  note t = search_students_spec
    [where env = plain_env and now = clock0 and st = demo_storage
       and criteria = "[(''gpa_min'', PNum (Finite 3.7))]" and result = "[demo_alice, demo_carol]"
       and s = demo_bob and v = "Finite 3.6" and key = "''nickname''" and val = "PStr ''Al''"]
  note u = search_students_spec
    [where env = plain_env and now = clock0 and st = demo_storage
       and criteria = "[(''nickname'', PStr ''Al''), (''gpa_min'', PNum (Finite 3.7))]"
       and s = demo_bob and key = "''to_dict''" and val = "PStr ''Al''"]
  have c1: "check_criterion plain_env clock0 demo_alice (''gpa_min'', PNum (Finite 3.7)) = Inr True"
    by (simp add: check_gpa_min demo_gpas)
  have c2: "check_criterion plain_env clock0 demo_bob (''gpa_min'', PNum (Finite 3.7)) = Inr False"
    by (simp add: check_gpa_min demo_gpas)
  have c3: "check_criterion plain_env clock0 demo_carol (''gpa_min'', PNum (Finite 3.7)) = Inr True"
    by (simp add: check_gpa_min demo_gpas)
  have h1: "search_students plain_env clock0 demo_storage [(''gpa_min'', PNum (Finite 3.7))] =
     Inr [demo_alice, demo_carol]"
    by (simp add: search_students_def demo_loaded c1 c2 c3)
  have h2: "\<forall>s \<in> set (get_all_students clock0 demo_storage).
              \<forall>kv \<in> set [(''gpa_min'', PNum (Finite 3.7))].
                \<exists>b. check_criterion plain_env clock0 s kv = Inr b"
    by (auto simp: demo_loaded c1 c2 c3)
  have h3: "gpa demo_bob \<noteq> NaN \<and> Finite 3.6 \<noteq> NaN"
    by (simp add: demo_gpas)
  have h4: "unknown_key plain_env ''nickname''"
    by code_simp
  have h5: "''to_dict'' \<in> set student_methods"
    by (simp add: student_methods_def)
  have f: "filter (\<lambda>kv. \<not> unknown_key plain_env (fst kv))
             [(''nickname'', PStr ''Al''), (''gpa_min'', PNum (Finite 3.7))] =
           [(''gpa_min'', PNum (Finite 3.7))]"
    by code_simp
  have le: "fl_le (Finite 3.6) (gpa demo_bob)"
    by (simp add: fl_le_def demo_gpas)
  from t h1 have r1: "[demo_alice, demo_carol] =
       filter (\<lambda>s. \<forall>kv \<in> set [(''gpa_min'', PNum (Finite 3.7))].
                    check_criterion plain_env clock0 s kv = Inr True)
         (get_all_students clock0 demo_storage)"
    by blast
  from t h2 have r2: "\<exists>result. search_students plain_env clock0 demo_storage
                  [(''gpa_min'', PNum (Finite 3.7))] = Inr result"
    by blast
  have le2: "fl_le (gpa demo_bob) (Finite 3.6)"
    by (simp add: fl_le_def demo_gpas)
  from t h3 have "check_criterion plain_env clock0 demo_bob (''gpa_min'', PNum (Finite 3.6)) =
       Inr (fl_le (Finite 3.6) (gpa demo_bob))
     \<and> check_criterion plain_env clock0 demo_bob (''gpa_max'', PNum (Finite 3.6)) =
       Inr (fl_le (gpa demo_bob) (Finite 3.6))"
    by blast
  with le le2
  have r3: "check_criterion plain_env clock0 demo_bob (''gpa_min'', PNum (Finite 3.6)) = Inr True
     \<and> check_criterion plain_env clock0 demo_bob (''gpa_max'', PNum (Finite 3.6)) = Inr True"
    by simp
  from t h4 have r4: "check_criterion plain_env clock0 demo_bob (''nickname'', PStr ''Al'') = Inr True"
    by blast
  from u f h1 have r5: "search_students plain_env clock0 demo_storage
        [(''nickname'', PStr ''Al''), (''gpa_min'', PNum (Finite 3.7))] =
       Inr [demo_alice, demo_carol]"
    by simp
  from u h5 have r6: "check_criterion plain_env clock0 demo_bob (''to_dict'', PStr ''Al'') = Inr False"
    by blast
  from t demo_loaded have r7: "search_students plain_env clock0 demo_storage [] =
       Inr [demo_alice, demo_bob, demo_carol]"
    by simp
  from h1 r1 c1 c2 c3 r2 h3 r3 h4 r4 r5 h5 r6 r7 show ?thesis by blast
qed

text \<open>
  Claim C6 as it was stated fails for a key that names a method: \<open>get_age\<close> is neither
  a search key nor a field, yet with it among the criteria no student is returned.
\<close>

theorem method_key_counterexample:
  "get_all_students clock0 demo_storage = [demo_alice, demo_bob, demo_carol]
   \<and> ''get_age'' \<notin> set search_keys \<and> ''get_age'' \<notin> set field_names
   \<and> search_students plain_env clock0 demo_storage [(''get_age'', PNum (Finite 20))] = Inr []"
proof -
  have a: "''get_age'' \<in> set student_methods"
    by (simp add: student_methods_def)
  have b: "''get_age'' \<notin> set search_keys \<and> ''get_age'' \<notin> set field_names"
    by (simp add: search_keys_def field_names_def)
  from a have "search_students plain_env clock0 demo_storage [(''get_age'', PNum (Finite 20))] = Inr []"
    by (simp add: search_students_def demo_loaded check_method)
  with demo_loaded b show ?thesis by blast
qed

subsection \<open>Statistics\<close>

lemma from_dict_date:
  assumes "from_dict now d = Inr s"
  shows "\<exists>b. strptime (date_of_birth s) = Some b"
proof -
  from assms obtain dob s0 addr maj g sid fname lname em ph
    where i: "init_student now sid fname lname em ph dob addr maj g = Inr s0"
      and d: "date_of_birth s = date_of_birth s0"
    unfolding from_dict_def by (auto dest!: res_bind_Inr)
  from init_student_fields(6) [OF i] have "validate_date dob = Inr (date_of_birth s0)" .
  then have "\<exists>b. strptime (date_of_birth s0) = Some b"
    by (auto simp: validate_date_def split: if_splits option.splits)
  with d show ?thesis by simp
qed

lemma loaded_age:
  "s \<in> set (load_students now data) \<Longrightarrow> \<exists>a. get_age now s = Inr a"
proof (induction data)
  case Nil
  then show ?case by simp
next
  case (Cons d data)
  show ?case
  proof (cases "from_dict now d")
    case (Inl e)
    with Cons show ?thesis by simp
  next
    case (Inr s')
    from from_dict_date [OF Inr] have "\<exists>a. get_age now s' = Inr a"
      by (auto simp: get_age_def Let_def split: prod.splits)
    with Cons Inr show ?thesis by auto
  qed
qed

lemma count_ages_buckets:
  assumes "\<forall>s \<in> set students. \<exists>a. get_age now s = Inr a"
  shows "count_ages now students [(''18-20'', a), (''21-25'', b), (''26-30'', c), (''30+'', d)] =
     Inr [(''18-20'', a + length (filter (age_in now 18 20) students)),
          (''21-25'', b + length (filter (age_in now 21 25) students)),
          (''26-30'', c + length (filter (age_in now 26 30) students)),
          (''30+'', d + length (filter (age_outside now) students))]"
  using assms
proof (induction students arbitrary: a b c d)
  case Nil
  show ?case by simp
next
  case (Cons s students)
  from Cons.prems obtain age where g: "get_age now s = Inr age" by auto
  from Cons.prems have rest: "\<forall>s \<in> set students. \<exists>a. get_age now s = Inr a" by simp
  note IH = Cons.IH [OF rest]
  consider (r1) "18 \<le> age \<and> age \<le> 20" | (r2) "21 \<le> age \<and> age \<le> 25"
    | (r3) "26 \<le> age \<and> age \<le> 30" | (r4) "age < 18 \<or> 30 < age"
    by linarith
  then show ?case
  proof cases
    case r1
    then show ?thesis
      by (simp add: g age_range_def dict_get_def age_in_def age_outside_def IH)
  next
    case r2
    then show ?thesis
      by (simp add: g age_range_def dict_get_def age_in_def age_outside_def IH)
  next
    case r3
    then show ?thesis
      by (simp add: g age_range_def dict_get_def age_in_def age_outside_def IH)
  next
    case r4
    then show ?thesis
      by (auto simp: g age_range_def dict_get_def age_in_def age_outside_def IH)
  qed
qed

lemma distinct_dict_set:
  "distinct (dict_keys d) \<Longrightarrow> distinct (dict_keys (dict_set k v d))"
proof (induction d)
  case Nil
  show ?case by (simp add: dict_keys_def)
next
  case (Cons p d)
  from Cons.prems have "fst p \<notin> set (dict_keys d)" and "distinct (dict_keys d)"
    by (simp_all add: dict_keys_def)
  with Cons.IH keys_dict_set [of k v d] show ?case
    by (auto simp: dict_keys_def)
qed

lemma count_majors_distinct:
  "distinct (dict_keys acc) \<Longrightarrow> distinct (dict_keys (count_majors students acc))"
  by (induction students arbitrary: acc) (simp_all add: Let_def distinct_dict_set)

lemma count_majors_map:
  "map_of (count_majors students acc) m =
     (if m \<in> major_label ` set students
      then Some (dict_get acc m 0 + length (filter (\<lambda>s. major_label s = m) students))
      else map_of acc m)"
proof (induction students arbitrary: acc)
  case Nil
  show ?case by simp
next
  case (Cons s students)
  have step: "count_majors (s # students) acc =
      count_majors students (dict_set (major_label s) (dict_get acc (major_label s) 0 + 1) acc)"
    by (simp add: Let_def major_label_def)
  show ?case
    unfolding step Cons.IH
    by (auto simp: dict_get_def map_of_dict_set filter_empty_conv image_iff)
qed

text \<open>
  Claim C5, amended. When at least one stored record loads, \<open>get_statistics\<close> returns
  the number of loaded students; the average of the gpas that are above 0, rounded to
  two decimal places, and 0.0 when no gpa is above 0; for every major label the number
  of students with it, where the label of an empty major is \<open>Undeclared\<close>; and the
  four age buckets in their order, each with the number of students whose age lies in
  its range, the last one counting the ages below 18 and above 30.
\<close>

theorem get_statistics_spec:
  assumes "get_all_students now st \<noteq> []"
  shows "\<exists>stats. get_statistics now st = Inr stats
     \<and> total_students stats = length (get_all_students now st)
     \<and> (filter has_gpa (get_all_students now st) = [] \<longrightarrow> average_gpa stats = Finite 0)
     \<and> (filter has_gpa (get_all_students now st) \<noteq> [] \<longrightarrow>
          average_gpa stats = round2 (mean (map gpa (filter has_gpa (get_all_students now st)))))
     \<and> distinct (dict_keys (majors stats))
     \<and> (\<forall>m. map_of (majors stats) m =
            (if m \<in> major_label ` set (get_all_students now st)
             then Some (length (filter (\<lambda>s. major_label s = m) (get_all_students now st)))
             else None))
     \<and> age_distribution stats =
         [(''18-20'', length (filter (age_in now 18 20) (get_all_students now st))),
          (''21-25'', length (filter (age_in now 21 25) (get_all_students now st))),
          (''26-30'', length (filter (age_in now 26 30) (get_all_students now st))),
          (''30+'', length (filter (age_outside now) (get_all_students now st)))]"
proof -
  let ?all = "get_all_students now st"
  have ages: "\<forall>s \<in> set ?all. \<exists>a. get_age now s = Inr a"
    by (auto simp: get_all_students_def intro: loaded_age)
  have hg: "(\<lambda>s. fl_less (Finite 0) (gpa s)) = has_gpa"
    by (simp add: has_gpa_def fun_eq_iff)
  have m: "\<forall>m. map_of (count_majors ?all []) m =
            (if m \<in> major_label ` set ?all
             then Some (length (filter (\<lambda>s. major_label s = m) ?all))
             else None)"
    by (simp add: count_majors_map dict_get_def)
  have d: "distinct (dict_keys (count_majors ?all []))"
    by (rule count_majors_distinct) (simp add: dict_keys_def)
  from assms count_ages_buckets [OF ages, of 0 0 0 0] m d show ?thesis
    by (simp add: get_statistics_def statistics_of_def Let_def hg round_half_even_def mean_def)
qed

lemma ages_loaded:
  "get_all_students clock0 ages_storage =
     [aged ''STU019'' ''2007-01-01'', aged ''STU022'' ''2004-11-04'',
      aged ''STU027'' ''1998-12-25'', aged ''STU035'' ''1991-06-30'']"
  by code_simp

lemma ages_of_four:
  "get_age clock0 (aged ''STU019'' ''2007-01-01'') = Inr 19"
  "get_age clock0 (aged ''STU022'' ''2004-11-04'') = Inr 22"
  "get_age clock0 (aged ''STU027'' ''1998-12-25'') = Inr 27"
  "get_age clock0 (aged ''STU035'' ''1991-06-30'') = Inr 35"
  by code_simp+

theorem get_statistics_spec_witness:
  "get_all_students clock0 ages_storage \<noteq> []
   \<and> map (get_age clock0) (get_all_students clock0 ages_storage) = [Inr 19, Inr 22, Inr 27, Inr 35]
   \<and> (\<exists>stats. get_statistics clock0 ages_storage = Inr stats
        \<and> total_students stats = 4
        \<and> average_gpa stats = Finite 0
        \<and> map_of (majors stats) ''Undeclared'' = Some 4
        \<and> age_distribution stats = [(''18-20'', 1), (''21-25'', 1), (''26-30'', 1), (''30+'', 1)])"
proof -
  have h: "get_all_students clock0 ages_storage \<noteq> []"
    by (simp add: ages_loaded)
  have a: "map (get_age clock0) (get_all_students clock0 ages_storage) = [Inr 19, Inr 22, Inr 27, Inr 35]"
    by (simp add: ages_loaded ages_of_four)
  have n: "length (get_all_students clock0 ages_storage) = 4"
    by (simp add: ages_loaded)
  have g: "filter has_gpa (get_all_students clock0 ages_storage) = []"
    by (simp add: ages_loaded has_gpa_def aged_def alice_def)
  have l: "''Undeclared'' \<in> major_label ` set (get_all_students clock0 ages_storage)"
    by (simp add: ages_loaded major_label_def aged_def alice_def)
  have c: "length (filter (\<lambda>s. major_label s = ''Undeclared'') (get_all_students clock0 ages_storage)) = 4"
    by (simp add: ages_loaded major_label_def aged_def alice_def)
  have b: "length (filter (age_in clock0 18 20) (get_all_students clock0 ages_storage)) = 1"
    "length (filter (age_in clock0 21 25) (get_all_students clock0 ages_storage)) = 1"
    "length (filter (age_in clock0 26 30) (get_all_students clock0 ages_storage)) = 1"
    "length (filter (age_outside clock0) (get_all_students clock0 ages_storage)) = 1"
    by (simp_all add: ages_loaded age_in_def age_outside_def ages_of_four)
  from get_statistics_spec [OF h] obtain stats where
    s: "get_statistics clock0 ages_storage = Inr stats"
      "total_students stats = length (get_all_students clock0 ages_storage)"
      "filter has_gpa (get_all_students clock0 ages_storage) = [] \<longrightarrow> average_gpa stats = Finite 0"
      "\<forall>m. map_of (majors stats) m =
            (if m \<in> major_label ` set (get_all_students clock0 ages_storage)
             then Some (length (filter (\<lambda>s. major_label s = m) (get_all_students clock0 ages_storage)))
             else None)"
      "age_distribution stats =
         [(''18-20'', length (filter (age_in clock0 18 20) (get_all_students clock0 ages_storage))),
          (''21-25'', length (filter (age_in clock0 21 25) (get_all_students clock0 ages_storage))),
          (''26-30'', length (filter (age_in clock0 26 30) (get_all_students clock0 ages_storage))),
          (''30+'', length (filter (age_outside clock0) (get_all_students clock0 ages_storage)))]"
    by blast
  from s(2) n have t: "total_students stats = 4" by simp
  from s(3) g have v: "average_gpa stats = Finite 0" by simp
  from s(4) l c have u: "map_of (majors stats) ''Undeclared'' = Some 4" by simp
  from s(5) b have w: "age_distribution stats = [(''18-20'', 1), (''21-25'', 1), (''26-30'', 1), (''30+'', 1)]"
    by simp
  from h a s(1) t v u w show ?thesis by blast
qed

text \<open>
  Claim C5 as it was stated fails for the average: over the gpas 3.8, 3.6 and 3.9 the
  mean is 113/30, and \<open>get_statistics\<close> returns 3.77.
\<close>

theorem rounded_average_counterexample:
  "get_all_students clock0 demo_storage = [demo_alice, demo_bob, demo_carol]
   \<and> map gpa [demo_alice, demo_bob, demo_carol] = [Finite 3.8, Finite 3.6, Finite 3.9]
   \<and> mean [Finite 3.8, Finite 3.6, Finite 3.9] = Finite (113 / 30)
   \<and> get_statistics clock0 demo_storage =
       Inr \<lparr>total_students = 3, average_gpa = Finite 3.77,
            majors = [(''Computer Science'', 1), (''Mathematics'', 1), (''Physics'', 1)],
            age_distribution = [(''18-20'', 0), (''21-25'', 2), (''26-30'', 1), (''30+'', 0)]\<rparr>
   \<and> Finite 3.77 \<noteq> Finite (113 / 30)"
proof -
  have a: "map gpa [demo_alice, demo_bob, demo_carol] = [Finite 3.8, Finite 3.6, Finite 3.9]"
    by (simp add: demo_gpas)
  have b: "mean [Finite 3.8, Finite 3.6, Finite 3.9] = Finite (113 / 30)"
    by (simp add: mean_def fl_sum_def)
  have c: "statistics_of clock0 [demo_alice, demo_bob, demo_carol] =
       Inr \<lparr>total_students = 3, average_gpa = Finite 3.77,
            majors = [(''Computer Science'', 1), (''Mathematics'', 1), (''Physics'', 1)],
            age_distribution = [(''18-20'', 0), (''21-25'', 2), (''26-30'', 1), (''30+'', 0)]\<rparr>"
    by code_simp
  have d: "Finite 3.77 \<noteq> Finite (113 / 30)"
    by simp
  from demo_loaded a b c d show ?thesis
    by (simp add: get_statistics_def)
qed

subsection \<open>Adding a student and reading it back\<close>

lemma id_exists_find_student:
  "id_exists data sid = Inr False \<Longrightarrow> d_student_id d = Some sid \<Longrightarrow> str_upper sid' = sid \<Longrightarrow>
     find_student now (data @ [d]) sid' =
       (case from_dict now d of Inl e \<Rightarrow> Inl e | Inr s \<Rightarrow> Inr (Some s))"
  by (induction data) (auto split: option.splits if_splits)

lemma add_then_get:
  assumes "id_exists (load_data st) (student_id e) = Inr False"
    and "save_fault flt = NoFault"
    and "str_upper sid = student_id e"
  shows "snd (add_student now flt st e) = Inr True"
    and "get_student now (fst (add_student now flt st e)) sid =
           (case from_dict now (to_dict e) of Inl err \<Rightarrow> Inl err | Inr s \<Rightarrow> Inr (Some s))"
  using assms id_exists_find_student [of "load_data st" "student_id e" "to_dict e" sid now]
  by (simp_all add: add_student_def save_data_def Let_def get_student_def load_data_def to_dict_def)

lemma add_existing:
  "id_exists (load_data st) (student_id e) = Inr True \<Longrightarrow> add_student now flt st e = (st, Inr False)"
  by (simp add: add_student_def)

text \<open>
  Claim C3 holds whenever the added student loads again. It fails for an id that is
  shorter than three characters once it is stripped: the constructor accepts \<open>"  a"\<close>
  and stores \<open>"A"\<close>, \<open>add_student\<close> writes the student and returns \<open>True\<close>, and
  \<open>get_student\<close> with that id in either case raises the \<open>ValueError\<close> of the id
  validator instead of returning the student.
\<close>

theorem padded_id_add_then_get:
  "init_student clock0 ''  a'' ''Carol'' ''Diaz'' ''carol@uni.edu'' ''5550001111'' ''2002-05-06'' [] []
     (Finite 0) = Inr padded_id_student
   \<and> add_student clock0 no_faults empty_storage padded_id_student =
       (\<lparr>db_file = Some (Json [to_dict padded_id_student]),
         backups = [(''backups/students_backup_20261104_093000.json'', Json [])]\<rparr>, Inr True)
   \<and> get_student clock0
        \<lparr>db_file = Some (Json [to_dict padded_id_student]),
         backups = [(''backups/students_backup_20261104_093000.json'', Json [])]\<rparr> ''a'' =
       Inl (ValueError ''Student ID must be at least 3 characters long'')
   \<and> get_student clock0
        \<lparr>db_file = Some (Json [to_dict padded_id_student]),
         backups = [(''backups/students_backup_20261104_093000.json'', Json [])]\<rparr> ''A'' =
       Inl (ValueError ''Student ID must be at least 3 characters long'')"
  by code_simp

text \<open>
  Claim C7 fails for the same id: the constructor accepts \<open>"  a"\<close>, and \<open>from_dict\<close>
  of \<open>to_dict\<close> of the student it returns raises, because the stored id \<open>"A"\<close> is
  shorter than three characters.
\<close>

theorem padded_id_round_trip:
  "init_student clock0 ''  a'' ''Carol'' ''Diaz'' ''carol@uni.edu'' ''5550001111'' ''2002-05-06'' [] []
     (Finite 0) = Inr padded_id_student
   \<and> to_dict padded_id_student =
       \<lparr>d_student_id = Some ''A'', d_first_name = Some ''Carol'', d_last_name = Some ''Diaz'',
        d_email = Some ''carol@uni.edu'', d_phone = Some ''5550001111'',
        d_date_of_birth = Some ''2002-05-06'', d_address = Some [], d_major = Some [],
        d_gpa = Some (Finite 0), d_enrollment_date = Some ''2026-11-04'', d_courses = Some [],
        d_grades = Some []\<rparr>
   \<and> from_dict clock0 (to_dict padded_id_student) =
       Inl (ValueError ''Student ID must be at least 3 characters long'')"
  by code_simp

end
